theory Spec2Isabelle
  imports Main "HOL-Library.Word"
begin

unbundle bit_operations_syntax

section \<open>The console of src/tty/tty.c\<close>

text \<open>
  A shallow embedding of the text console of the kernel (file \<^verbatim>\<open>src/tty/tty.c\<close>).
  Every C function becomes a HOL function of the same name that takes the
  console (and, where the C code draws, the display hardware) and returns
  the new one.

  The header \<^verbatim>\<open>tty.h\<close> is not among the sources, so its macros are the
  fields of a \<open>config\<close> record that every function takes as its first
  argument, and its types are read off the code and the specification:
  \<^item> \<^verbatim>\<open>uint16_t\<close> history cells are \<open>16 word\<close>, \<^verbatim>\<open>char\<close> is \<open>8 word\<close>;
  \<^item> \<^verbatim>\<open>vgacolor_t\<close> is the 8-bit colour attribute, \<open>8 word\<close>;
  \<^item> \<^verbatim>\<open>vgapos_t\<close> is a signed integer type of \<open>VGAPOS_BITS\<close> bits, no wider
    than \<^verbatim>\<open>int\<close>. A \<^verbatim>\<open>vgapos_t\<close> value is an \<open>int\<close>; expressions are evaluated
    in \<open>int\<close>, as the integer promotions of C have it, and every store into
    a \<^verbatim>\<open>vgapos_t\<close> variable truncates to the type (\<open>to_vgapos\<close>), so that
    an overflow, possible in C only where \<open>VGAPOS_BITS\<close> is 32, wraps;
  \<^item> \<^verbatim>\<open>size_t\<close> is the unsigned 32-bit integer of the i386 target, modelled by
    \<open>nat\<close> with the reduction modulo \<open>2 ^ 32\<close> written out where a value is
    converted to it.

  An access outside the \<^verbatim>\<open>history\<close> array is undefined behaviour in C. The
  model makes it a value: every function that touches the array returns
  \<open>fault + state\<close> and yields \<open>Inl OutOfBounds\<close> at the first such access.
\<close>

type_synonym vgacolor_t = "8 word"
type_synonym vgapos_t = int
type_synonym cell = "16 word"
type_synonym byte = "8 word"

record config =
  VGA_WIDTH :: int
  VGA_HEIGHT :: int
  HISTORY_LINES :: int
  EMPTY_CHAR :: cell
  VGA_DEFAULT_COLOR :: vgacolor_t
  TAB_SIZE :: int
  ANSI_ESCAPE :: byte
  VGAPOS_BITS :: nat

record tty =
  cursor_x :: vgapos_t
  cursor_y :: vgapos_t
  screen_y :: vgapos_t
  current_color :: vgacolor_t
  history :: "cell list"
  prompted_chars :: nat
  freeze :: bool

text \<open>
  The display hardware the console draws on: the memory-mapped text buffer
  (\<^verbatim>\<open>VGA_BUFFER\<close>), the hardware cursor set by \<^verbatim>\<open>vga_move_cursor\<close>, and the
  number of tones requested from \<^verbatim>\<open>beep_during\<close>.
\<close>

record hw =
  vga_buffer :: "cell list"
  vga_cursor :: "int \<times> int"
  beeps :: nat

datatype fault = OutOfBounds

fun and_then :: "fault + 'a \<Rightarrow> ('a \<Rightarrow> fault + 'b) \<Rightarrow> fault + 'b" where
  "and_then (Inl e) f = Inl e"
| "and_then (Inr x) f = f x"

subsection \<open>C arithmetic\<close>

text \<open>The operators \<^verbatim>\<open>/\<close> and \<^verbatim>\<open>%\<close> of C truncate towards zero.\<close>

definition c_div :: "int \<Rightarrow> int \<Rightarrow> int" where
  "c_div a b = sgn a * sgn b * (\<bar>a\<bar> div \<bar>b\<bar>)"

definition c_mod :: "int \<Rightarrow> int \<Rightarrow> int" where
  "c_mod a b = a - b * c_div a b"

text \<open>
  Conversion of an integer to \<^verbatim>\<open>vgapos_t\<close>: the low \<open>VGAPOS_BITS\<close> bits, read as
  two's complement.
\<close>

definition to_vgapos :: "config \<Rightarrow> int \<Rightarrow> vgapos_t" where
  "to_vgapos cfg v = signed_take_bit (VGAPOS_BITS cfg - 1) v"

text \<open>Conversion of an integer to \<^verbatim>\<open>size_t\<close>.\<close>

definition size_t :: "int \<Rightarrow> nat" where
  "size_t v = nat (v mod 2 ^ 32)"

text \<open>\<^verbatim>\<open>sizeof(tty->history)\<close>, in bytes: two bytes for each cell.\<close>

definition sizeof_history :: "tty \<Rightarrow> nat" where
  "sizeof_history t = 2 * length (history t)"

text \<open>
  Modelled from the spec: the macro \<^verbatim>\<open>HISTORY_POS\<close> of tty.h, the index of the
  history cell addressed by \<open>(screen_y, cursor_x, cursor_y)\<close>; the history is
  row-major, as \<^verbatim>\<open>update_tty\<close> reads it.
\<close>

definition HISTORY_POS :: "config \<Rightarrow> int \<Rightarrow> int \<Rightarrow> int \<Rightarrow> int" where
  "HISTORY_POS cfg sy cx cy = VGA_WIDTH cfg * (sy + cy) + cx"

text \<open>
  Modelled from the spec: the macro \<^verbatim>\<open>GET_TAB_SIZE\<close> of tty.h, the distance from
  \<open>cursor_x\<close> to the next tab stop for the fixed tab width.
\<close>

definition GET_TAB_SIZE :: "config \<Rightarrow> int \<Rightarrow> int" where
  "GET_TAB_SIZE cfg cx = TAB_SIZE cfg - c_mod cx (TAB_SIZE cfg)"

subsection \<open>Accesses to the history array\<close>

text \<open>\<^verbatim>\<open>history[i] = v\<close>\<close>

definition history_store :: "cell list \<Rightarrow> int \<Rightarrow> cell \<Rightarrow> fault + cell list" where
  "history_store h i v =
     (if 0 \<le> i \<and> i < int (length h) then Inr (h[nat i := v]) else Inl OutOfBounds)"

text \<open>
  The loop \<^verbatim>\<open>for(i = 0; i < size; ++i) ptr[i] = v\<close> with \<open>ptr = history + off\<close>:
  \<open>n\<close> counts the iterations that remain.
\<close>

primrec fill_cells :: "cell \<Rightarrow> cell list \<Rightarrow> nat \<Rightarrow> nat \<Rightarrow> cell list" where
  "fill_cells v h off 0 = h"
| "fill_cells v h off (Suc n) = fill_cells v (h[off := v]) (Suc off) n"

definition tty_clear_portion :: "config \<Rightarrow> cell list \<Rightarrow> nat \<Rightarrow> nat \<Rightarrow> fault + cell list" where
  "tty_clear_portion cfg h off sz =
     (if off + sz \<le> length h then Inr (fill_cells (EMPTY_CHAR cfg) h off sz)
      else Inl OutOfBounds)"

text \<open>
  \<^verbatim>\<open>memmove(history, history + src, bytes)\<close>: \<open>src\<close> counts cells, as pointer
  arithmetic on \<^verbatim>\<open>uint16_t *\<close> does, and \<open>bytes\<close> counts bytes.
\<close>

definition memmove_history :: "cell list \<Rightarrow> nat \<Rightarrow> nat \<Rightarrow> fault + cell list" where
  "memmove_history h src bytes =
     (let n = bytes div 2 in
      if src + n \<le> length h then Inr (take n (drop src h) @ drop n h)
      else Inl OutOfBounds)"

text \<open>The cells \<^verbatim>\<open>memcpy\<close> reads from \<open>history + off\<close>.\<close>

definition history_read :: "cell list \<Rightarrow> int \<Rightarrow> nat \<Rightarrow> fault + cell list" where
  "history_read h off bytes =
     (let n = bytes div 2 in
      if 0 \<le> off \<and> nat off + n \<le> length h then Inr (take n (drop (nat off) h))
      else Inl OutOfBounds)"

subsection \<open>Attributes\<close>

definition tty_reset_attrs :: "config \<Rightarrow> tty \<Rightarrow> tty" where
  "tty_reset_attrs cfg t = t\<lparr>current_color := VGA_DEFAULT_COLOR cfg\<rparr>"

text \<open>
  The integer promotions of C do not show in the result: the operands are
  widened, combined bit by bit and truncated to the 8 bits of
  \<^verbatim>\<open>current_color\<close> again. \<^verbatim>\<open>(vgacolor_t) 0xff\<close> is \<open>0xFF\<close> and
  \<^verbatim>\<open>(vgacolor_t) (0xff << 4)\<close> is the low byte of \<open>0xFF0\<close>.
\<close>

definition tty_set_fgcolor :: "tty \<Rightarrow> vgacolor_t \<Rightarrow> tty" where
  "tty_set_fgcolor t color =
     (let t1 = t\<lparr>current_color := current_color t AND NOT (ucast (0xFF :: 32 word))\<rparr>
      in t1\<lparr>current_color := current_color t1 OR color\<rparr>)"

definition tty_set_bgcolor :: "tty \<Rightarrow> vgacolor_t \<Rightarrow> tty" where
  "tty_set_bgcolor t color =
     (let t1 = t\<lparr>current_color :=
                  current_color t AND NOT (ucast (push_bit 4 (0xFF :: 32 word)))\<rparr>
      in t1\<lparr>current_color := current_color t1 OR push_bit 4 color\<rparr>)"

subsection \<open>Drawing\<close>

definition update_tty :: "config \<Rightarrow> tty \<times> hw \<Rightarrow> fault + tty \<times> hw" where
  "update_tty cfg s =
     (let t = fst s; d = snd s;
          bytes = (if screen_y t + VGA_HEIGHT cfg \<le> HISTORY_LINES cfg
                   then size_t (VGA_WIDTH cfg * VGA_HEIGHT cfg * 2)
                   else size_t (VGA_WIDTH cfg * (HISTORY_LINES cfg - screen_y t) * 2))
      in and_then (history_read (history t) (VGA_WIDTH cfg * screen_y t) bytes)
           (\<lambda>cells. Inr (t, d\<lparr>vga_buffer := cells @ drop (bytes div 2) (vga_buffer d),
                              vga_cursor := (cursor_x t, cursor_y t)\<rparr>)))"

definition tty_clear :: "config \<Rightarrow> tty \<times> hw \<Rightarrow> fault + tty \<times> hw" where
  "tty_clear cfg s =
     (let t = (fst s)\<lparr>cursor_x := 0, cursor_y := 0, screen_y := 0\<rparr>
      in and_then (tty_clear_portion cfg (history t) 0 (sizeof_history t div 2))
           (\<lambda>h. update_tty cfg (t\<lparr>history := h\<rparr>, snd s)))"

subsection \<open>Normalisation of the cursor\<close>

text \<open>The six \<^verbatim>\<open>if\<close> blocks of \<^verbatim>\<open>tty_fix_pos\<close>, in the order of the source.\<close>

definition fix_x_underflow :: "config \<Rightarrow> tty \<Rightarrow> tty" where
  "fix_x_underflow cfg t =
     (if cursor_x t < 0 then
        (let p = to_vgapos cfg (- cursor_x t)
         in t\<lparr>cursor_x := to_vgapos cfg (VGA_WIDTH cfg - c_mod p (VGA_WIDTH cfg)),
              cursor_y := to_vgapos cfg (cursor_y t + (c_div p (VGA_WIDTH cfg) - 1))\<rparr>)
      else t)"

definition fix_x_overflow :: "config \<Rightarrow> tty \<Rightarrow> tty" where
  "fix_x_overflow cfg t =
     (if cursor_x t \<ge> VGA_WIDTH cfg then
        (let p = cursor_x t
         in t\<lparr>cursor_x := to_vgapos cfg (c_mod p (VGA_WIDTH cfg)),
              cursor_y := to_vgapos cfg (cursor_y t + c_div p (VGA_WIDTH cfg))\<rparr>)
      else t)"

definition fix_y_underflow :: "config \<Rightarrow> tty \<Rightarrow> tty" where
  "fix_y_underflow cfg t =
     (if cursor_y t < 0 then
        t\<lparr>screen_y := to_vgapos cfg (screen_y t - ((cursor_y t - VGA_HEIGHT cfg) + 1)),
          cursor_y := 0\<rparr>
      else t)"

definition fix_y_overflow :: "config \<Rightarrow> tty \<Rightarrow> tty" where
  "fix_y_overflow cfg t =
     (if cursor_y t \<ge> VGA_HEIGHT cfg then
        t\<lparr>screen_y := to_vgapos cfg (screen_y t + ((cursor_y t - VGA_HEIGHT cfg) + 1)),
          cursor_y := to_vgapos cfg (VGA_HEIGHT cfg - 1)\<rparr>
      else t)"

definition fix_screen_low :: "tty \<Rightarrow> tty" where
  "fix_screen_low t = (if screen_y t < 0 then t\<lparr>screen_y := 0\<rparr> else t)"

definition fix_evict :: "config \<Rightarrow> tty \<Rightarrow> fault + tty" where
  "fix_evict cfg t =
     (if screen_y t + VGA_HEIGHT cfg \<ge> HISTORY_LINES cfg then
        (let diff = size_t (VGA_WIDTH cfg
                      * (HISTORY_LINES cfg - (screen_y t + VGA_HEIGHT cfg) + 1));
             sz = size_t (int (sizeof_history t) - int (diff * 2))
         in and_then (memmove_history (history t) (size_t (int (diff * 2))) sz)
              (\<lambda>h1. and_then (tty_clear_portion cfg h1 (sz div 2) diff)
                 (\<lambda>h2. Inr (t\<lparr>history := h2,
                               screen_y :=
                                 to_vgapos cfg (HISTORY_LINES cfg - VGA_HEIGHT cfg)\<rparr>))))
      else Inr t)"

definition tty_fix_pos :: "config \<Rightarrow> tty \<Rightarrow> fault + tty" where
  "tty_fix_pos cfg t =
     fix_evict cfg (fix_screen_low (fix_y_overflow cfg (fix_y_underflow cfg
       (fix_x_overflow cfg (fix_x_underflow cfg t)))))"

subsection \<open>Cursor moves\<close>

text \<open>
  The deltas are \<^verbatim>\<open>size_t\<close> values. In \<^verbatim>\<open>tty->cursor_x += x\<close> the cursor is
  converted to \<^verbatim>\<open>size_t\<close>, the sum or difference is taken modulo \<open>2 ^ 32\<close>, and
  the result is converted back to \<^verbatim>\<open>vgapos_t\<close>.
\<close>

definition tty_cursor_forward :: "config \<Rightarrow> tty \<Rightarrow> nat \<Rightarrow> nat \<Rightarrow> fault + tty" where
  "tty_cursor_forward cfg t x y =
     tty_fix_pos cfg
       (t\<lparr>cursor_x := to_vgapos cfg (int (size_t (cursor_x t + int x))),
          cursor_y := to_vgapos cfg (int (size_t (cursor_y t + int y)))\<rparr>)"

definition tty_cursor_backward :: "config \<Rightarrow> tty \<Rightarrow> nat \<Rightarrow> nat \<Rightarrow> fault + tty" where
  "tty_cursor_backward cfg t x y =
     tty_fix_pos cfg
       (t\<lparr>cursor_x := to_vgapos cfg (int (size_t (cursor_x t - int x))),
          cursor_y := to_vgapos cfg (int (size_t (cursor_y t - int y)))\<rparr>)"

definition tty_newline :: "config \<Rightarrow> tty \<Rightarrow> fault + tty" where
  "tty_newline cfg t =
     tty_fix_pos cfg (t\<lparr>cursor_x := 0, cursor_y := to_vgapos cfg (cursor_y t + 1)\<rparr>)"

subsection \<open>Writing\<close>

text \<open>
  The cell of a glyph: \<^verbatim>\<open>(uint16_t) c | ((uint16_t) tty->current_color << 8)\<close>,
  stored in a \<^verbatim>\<open>uint16_t\<close>. \<^verbatim>\<open>char\<close> is signed on the target, so the
  conversion of \<open>c\<close> extends its sign.
\<close>

definition glyph_cell :: "byte \<Rightarrow> vgacolor_t \<Rightarrow> cell" where
  "glyph_cell c color = scast c OR push_bit 8 (ucast color)"

definition tty_putchar :: "config \<Rightarrow> byte \<Rightarrow> bool \<Rightarrow> tty \<times> hw \<Rightarrow> fault + tty \<times> hw" where
  "tty_putchar cfg c update s =
     (let t = fst s; d = snd s in
      and_then
        (if c = 8 then Inr (t, d\<lparr>beeps := Suc (beeps d)\<rparr>)
         else if c = 9 then
           and_then (tty_cursor_forward cfg t (size_t (GET_TAB_SIZE cfg (cursor_x t))) 0)
             (\<lambda>t1. Inr (t1, d))
         else if c = 10 then and_then (tty_newline cfg t) (\<lambda>t1. Inr (t1, d))
         else if c = 13 then Inr (t\<lparr>cursor_x := 0\<rparr>, d)
         else
           and_then (history_store (history t)
               (HISTORY_POS cfg (screen_y t) (cursor_x t) (cursor_y t))
               (glyph_cell c (current_color t)))
             (\<lambda>h. and_then (tty_cursor_forward cfg (t\<lparr>history := h\<rparr>) 1 0)
                (\<lambda>t1. Inr (t1, d))))
        (\<lambda>s1. and_then (tty_fix_pos cfg (fst s1))
           (\<lambda>t2. if update then update_tty cfg (t2, snd s1) else Inr (t2, snd s1))))"

subsection \<open>Erasing\<close>

text \<open>
  The loop \<^verbatim>\<open>for(size_t i = begin; i < begin + count; ++i)\<close> runs from
  \<open>lo\<close>, the \<^verbatim>\<open>vgapos_t\<close> \<open>begin\<close> converted to \<^verbatim>\<open>size_t\<close>, up to \<open>hi\<close>, the
  sum taken in \<^verbatim>\<open>size_t\<close>; it does not run at all where \<open>hi \<le> lo\<close>.
\<close>

definition tty_erase :: "config \<Rightarrow> nat \<Rightarrow> tty \<times> hw \<Rightarrow> fault + tty \<times> hw" where
  "tty_erase cfg count0 s =
     (let t = fst s; d = snd s in
      if prompted_chars t = 0 then Inr s
      else
        (let count = (if count0 > prompted_chars t then prompted_chars t else count0) in
         and_then (tty_cursor_backward cfg t count 0)
           (\<lambda>t1. let begin = to_vgapos cfg
                               (HISTORY_POS cfg (screen_y t1) (cursor_x t1) (cursor_y t1));
                     lo = size_t begin;
                     hi = size_t (begin + int count) in
              and_then (if hi \<le> lo then Inr (history t1)
                        else if hi \<le> length (history t1)
                        then Inr (fill_cells (EMPTY_CHAR cfg) (history t1) lo (hi - lo))
                        else Inl OutOfBounds)
                (\<lambda>h. let t2 = t1\<lparr>history := h\<rparr> in
                   and_then (if \<not> freeze t2 then update_tty cfg (t2, d) else Inr (t2, d))
                     (\<lambda>s3. Inr ((fst s3)\<lparr>prompted_chars := prompted_chars (fst s3) - count\<rparr>,
                                 snd s3))))))"

subsection \<open>The bulk write\<close>

text \<open>
  \<^verbatim>\<open>ansi_handle\<close> is not among the sources. It is a parameter: it receives the
  console and the display, the buffer, the index \<open>i\<close> (which it may change
  through the pointer) and the count, and returns the new state and index.
\<close>

type_synonym ansi_handle_t =
  "tty \<times> hw \<Rightarrow> byte list \<Rightarrow> nat \<Rightarrow> nat \<Rightarrow> fault + (tty \<times> hw) \<times> nat"

text \<open>
  The loop of \<^verbatim>\<open>tty_write\<close>. The handler may move the index backwards, so
  the loop need not end: its result is \<open>None\<close> then. Reading \<^verbatim>\<open>buffer[i]\<close>
  beyond the buffer is a fault.
\<close>

partial_function (option) tty_write_loop ::
  "config \<Rightarrow> ansi_handle_t \<Rightarrow> byte list \<Rightarrow> nat \<Rightarrow> nat \<Rightarrow> tty \<times> hw
     \<Rightarrow> (fault + tty \<times> hw) option" where
  "tty_write_loop cfg ansi_handle buffer count i s =
     (if i < count then
        (if i < length buffer then
           (case and_then
                   (if buffer ! i \<noteq> ANSI_ESCAPE cfg
                    then and_then (tty_putchar cfg (buffer ! i) False s) (\<lambda>s1. Inr (s1, i))
                    else ansi_handle s buffer i count)
                   (\<lambda>r. and_then (update_tty cfg (fst r)) (\<lambda>s2. Inr (s2, snd r))) of
              Inl e \<Rightarrow> Some (Inl e)
            | Inr r \<Rightarrow> tty_write_loop cfg ansi_handle buffer count
                         (size_t (int (snd r) + 1)) (fst r))
         else Some (Inl OutOfBounds))
      else Some (Inr s))"

text \<open>
  \<^verbatim>\<open>tty_write\<close>: the buffer and the console are pointers, \<open>None\<close> is the null
  pointer.
\<close>

definition tty_write ::
  "config \<Rightarrow> ansi_handle_t \<Rightarrow> byte list option \<Rightarrow> nat \<Rightarrow> tty option \<times> hw
     \<Rightarrow> (fault + tty option \<times> hw) option" where
  "tty_write cfg ansi_handle buffer count s =
     (case (buffer, fst s) of
        (Some b, Some t) \<Rightarrow>
          (if count = 0 then Some (Inr s)
           else map_option (map_sum id (\<lambda>r. (Some (fst r), snd r)))
                  (tty_write_loop cfg ansi_handle b count 0 (t, snd s)))
      | _ \<Rightarrow> Some (Inr s))"

subsection \<open>Keyboard hooks\<close>

text \<open>
  The keyboard service is not among the sources. The hooks see it through
  the state of the control and shift keys, the translation of a key code to a
  character, and the key codes of Q, W and S; key codes are numbers. The
  hooks work on \<^verbatim>\<open>current_tty\<close>, which they dereference without a test.
\<close>

type_synonym key_code_t = nat

record keyboard =
  keyboard_is_ctrl_enabled :: bool
  keyboard_is_shift_enabled :: bool
  keyboard_get_char :: "key_code_t \<Rightarrow> bool \<Rightarrow> byte"
  KEY_Q :: key_code_t
  KEY_W :: key_code_t
  KEY_S :: key_code_t

definition tty_input_hook ::
  "config \<Rightarrow> keyboard \<Rightarrow> key_code_t \<Rightarrow> tty \<times> hw \<Rightarrow> fault + tty \<times> hw" where
  "tty_input_hook cfg kb code s =
     (let t = fst s; d = snd s in
      if keyboard_is_ctrl_enabled kb then
        (if code = KEY_Q kb then update_tty cfg (t\<lparr>freeze := False\<rparr>, d)
         else if code = KEY_W kb then tty_erase cfg (prompted_chars t) s
         else if code = KEY_S kb then Inr (t\<lparr>freeze := True\<rparr>, d)
         else Inr s)
      else
        (let c = keyboard_get_char kb code (keyboard_is_shift_enabled kb) in
         and_then (tty_putchar cfg c (\<not> freeze t) s)
           (\<lambda>s1. Inr ((fst s1)\<lparr>prompted_chars :=
                         (if c = 10 then 0
                          else size_t (int (prompted_chars (fst s1)) + 1))\<rparr>,
                       snd s1))))"

text \<open>\<^verbatim>\<open>tty_ctrl_hook\<close> casts its argument to \<^verbatim>\<open>void\<close> and returns.\<close>

definition tty_ctrl_hook :: "key_code_t \<Rightarrow> tty \<times> hw \<Rightarrow> tty \<times> hw" where
  "tty_ctrl_hook code s = s"

definition tty_erase_hook :: "config \<Rightarrow> tty \<times> hw \<Rightarrow> fault + tty \<times> hw" where
  "tty_erase_hook cfg s = tty_erase cfg 1 s"

section \<open>Well-formed consoles and the invariant\<close>

text \<open>
  The geometry the code is compiled for: a viewport of at least one cell, a
  history longer than the viewport, and \<^verbatim>\<open>sizeof(tty->history)\<close> within
  \<^verbatim>\<open>size_t\<close>.
\<close>

definition wf_config :: "config \<Rightarrow> bool" where
  "wf_config cfg \<longleftrightarrow>
     0 < VGA_WIDTH cfg \<and> 0 < VGA_HEIGHT cfg \<and> VGA_HEIGHT cfg < HISTORY_LINES cfg \<and>
     2 * (VGA_WIDTH cfg * HISTORY_LINES cfg) < 2 ^ 32"

text \<open>
  A \<^verbatim>\<open>vgapos_t\<close> of at most 32 bits that holds every index into the history
  (\<^verbatim>\<open>tty_erase\<close> keeps one in a \<^verbatim>\<open>vgapos_t\<close>).
\<close>

definition wf_vgapos :: "config \<Rightarrow> bool" where
  "wf_vgapos cfg \<longleftrightarrow>
     wf_config cfg \<and> 0 < VGAPOS_BITS cfg \<and> VGAPOS_BITS cfg \<le> 32 \<and>
     VGA_WIDTH cfg * HISTORY_LINES cfg < 2 ^ (VGAPOS_BITS cfg - 1)"

text \<open>The history array has \<^verbatim>\<open>VGA_WIDTH * HISTORY_LINES\<close> cells.\<close>

definition wf_tty :: "config \<Rightarrow> tty \<Rightarrow> bool" where
  "wf_tty cfg t \<longleftrightarrow> int (length (history t)) = VGA_WIDTH cfg * HISTORY_LINES cfg"

definition tty_invariant :: "config \<Rightarrow> tty \<Rightarrow> bool" where
  "tty_invariant cfg t \<longleftrightarrow>
     0 \<le> cursor_x t \<and> cursor_x t < VGA_WIDTH cfg \<and>
     0 \<le> cursor_y t \<and> cursor_y t < VGA_HEIGHT cfg \<and>
     0 \<le> screen_y t \<and> screen_y t + VGA_HEIGHT cfg \<le> HISTORY_LINES cfg"

subsection \<open>A concrete console\<close>

text \<open>
  The geometry of the specification's scenario: a viewport of 80 by 25 cells
  on a history of 200 lines, tab stops every 8 columns, light grey on black
  (\<open>0x07\<close>) as the default colour, the blank glyph in that colour as the
  empty cell, and a \<^verbatim>\<open>vgapos_t\<close> of 16 bits.
\<close>

definition vga_config :: config where
  "vga_config = \<lparr>VGA_WIDTH = 80, VGA_HEIGHT = 25, HISTORY_LINES = 200,
     EMPTY_CHAR = 0x0700, VGA_DEFAULT_COLOR = 0x07, TAB_SIZE = 8, ANSI_ESCAPE = 0x1B,
     VGAPOS_BITS = 16\<rparr>"

text \<open>The console and the display as \<^verbatim>\<open>tty_init\<close> leaves them.\<close>

definition cleared_tty :: "config \<Rightarrow> tty" where
  "cleared_tty cfg =
     \<lparr>cursor_x = 0, cursor_y = 0, screen_y = 0, current_color = VGA_DEFAULT_COLOR cfg,
      history = replicate (nat (VGA_WIDTH cfg * HISTORY_LINES cfg)) (EMPTY_CHAR cfg),
      prompted_chars = 0, freeze = False\<rparr>"

definition cleared_hw :: "config \<Rightarrow> hw" where
  "cleared_hw cfg =
     \<lparr>vga_buffer = replicate (nat (VGA_WIDTH cfg * VGA_HEIGHT cfg)) (EMPTY_CHAR cfg),
      vga_cursor = (0, 0), beeps = 0\<rparr>"

text \<open>
  The console and the display after the letter A has been typed 80 times at
  the keyboard of a cleared console: the first row is full, the cursor has
  wrapped to column 0 of the second row, and the 80 characters are counted
  in \<open>prompted_chars\<close>.
\<close>

definition typed_row_tty :: tty where
  "typed_row_tty =
     (cleared_tty vga_config)\<lparr>cursor_y := 1,
        history := replicate 80 0x0741 @ replicate 15920 0x0700, prompted_chars := 80\<rparr>"

definition typed_row_hw :: hw where
  "typed_row_hw =
     (cleared_hw vga_config)\<lparr>vga_buffer := replicate 80 0x0741 @ replicate 1920 0x0700,
        vga_cursor := (0, 1)\<rparr>"

section \<open>Properties of the model\<close>

subsection \<open>Arithmetic and array accesses\<close>

lemma c_div_nonneg: "0 \<le> a \<Longrightarrow> 0 < b \<Longrightarrow> c_div a b = a div b"
  by (cases "a = 0") (simp_all add: c_div_def)

lemma c_mod_nonneg: "0 \<le> a \<Longrightarrow> 0 < b \<Longrightarrow> c_mod a b = a mod b"
  by (simp add: c_mod_def c_div_nonneg minus_mult_div_eq_mod)

text \<open>The remainder of C has the sign of the dividend and is smaller than the divisor.\<close>

lemma c_mod_bounds:
  assumes "0 < b"
  shows "- b < c_mod a b" and "c_mod a b < b"
proof -
  have "- b < c_mod a b \<and> c_mod a b < b"
  proof (cases "0 \<le> a")
    case True
    then have "c_mod a b = a mod b"
      using assms by (simp add: c_mod_nonneg)
    moreover have "0 \<le> a mod b" and "a mod b < b"
      using assms by simp_all
    ultimately show ?thesis using assms by linarith
  next
    case False
    then have "c_div a b = - ((- a) div b)"
      using assms by (simp add: c_div_def)
    then have "c_mod a b = - ((- a) mod b)"
      by (simp add: c_mod_def algebra_simps minus_mult_div_eq_mod [symmetric])
    moreover have "0 \<le> (- a) mod b" and "(- a) mod b < b"
      using assms by simp_all
    ultimately show ?thesis by linarith
  qed
  then show "- b < c_mod a b" and "c_mod a b < b" by simp_all
qed

lemma size_t_id: "0 \<le> v \<Longrightarrow> v < 2 ^ 32 \<Longrightarrow> size_t v = nat v"
  by (simp add: size_t_def)

lemma size_t_less: "size_t v < 2 ^ 32"
  by (simp add: size_t_def nat_less_iff)

lemma size_t_0 [simp]: "size_t 0 = 0"
  by (simp add: size_t_def)

lemma int_size_t: "int (size_t v) = v mod 2 ^ 32"
  by (simp add: size_t_def)

lemma length_fill_cells: "length (fill_cells v h off n) = length h"
  by (induction n arbitrary: h off) simp_all

lemma fill_cells_eq:
  "off + n \<le> length h \<Longrightarrow> fill_cells v h off n = take off h @ replicate n v @ drop (off + n) h"
proof (induction n arbitrary: h off)
  case 0
  then show ?case by simp
next
  case (Suc n)
  have "fill_cells v h off (Suc n) = fill_cells v (h[off := v]) (Suc off) n" by simp
  also have "\<dots> = take (Suc off) (h[off := v]) @ replicate n v @ drop (Suc off + n) (h[off := v])"
    using Suc.prems by (intro Suc.IH) simp
  also have "\<dots> = take off h @ replicate (Suc n) v @ drop (off + Suc n) h"
    using Suc.prems by (simp add: take_Suc_conv_app_nth)
  finally show ?case .
qed

text \<open>Blanking cells that are blank already changes nothing.\<close>

lemma fill_cells_same:
  assumes "off + n \<le> length h" and "\<And>i. off \<le> i \<Longrightarrow> i < off + n \<Longrightarrow> h ! i = v"
  shows "fill_cells v h off n = h"
proof (rule nth_equalityI)
  show "length (fill_cells v h off n) = length h" by (rule length_fill_cells)
next
  fix i
  assume "i < length (fill_cells v h off n)"
  then have i: "i < length h" by (simp add: length_fill_cells)
  show "fill_cells v h off n ! i = h ! i"
    using assms i by (auto simp: fill_cells_eq nth_append)
qed

lemma and_then_Inr: "and_then m f = Inr y \<longleftrightarrow> (\<exists>x. m = Inr x \<and> f x = Inr y)"
  by (cases m) simp_all

subsection \<open>Truncation to vgapos_t\<close>

lemma to_vgapos_id:
  "- (2 ^ (VGAPOS_BITS cfg - 1)) \<le> v \<Longrightarrow> v < 2 ^ (VGAPOS_BITS cfg - 1) \<Longrightarrow> to_vgapos cfg v = v"
  by (simp add: to_vgapos_def signed_take_bit_int_eq_self)

lemma to_vgapos_0 [simp]: "to_vgapos cfg 0 = 0"
  by (simp add: to_vgapos_def)

text \<open>
  A \<^verbatim>\<open>vgapos_t\<close> is no wider than \<^verbatim>\<open>size_t\<close>: the reduction modulo \<open>2 ^ 32\<close> is
  lost in the conversion back.
\<close>

lemma to_vgapos_size_t:
  assumes "wf_vgapos cfg"
  shows "to_vgapos cfg (int (size_t v)) = to_vgapos cfg v"
proof -
  from assms have "0 < VGAPOS_BITS cfg" and "VGAPOS_BITS cfg \<le> 32"
    by (simp_all add: wf_vgapos_def wf_config_def)
  then have "\<not> 32 \<le> VGAPOS_BITS cfg - 1" by linarith
  then have "signed_take_bit (VGAPOS_BITS cfg - 1) (take_bit 32 v) =
      signed_take_bit (VGAPOS_BITS cfg - 1) v"
    by (simp add: signed_take_bit_take_bit)
  then show ?thesis by (simp add: to_vgapos_def int_size_t take_bit_eq_mod)
qed

text \<open>The numbers of the geometry, and what lies between them, are \<^verbatim>\<open>vgapos_t\<close> values.\<close>

lemma wf_vgapos_geometry:
  assumes "wf_vgapos cfg"
  shows "0 < VGA_WIDTH cfg" and "0 < VGA_HEIGHT cfg" and "VGA_HEIGHT cfg < HISTORY_LINES cfg"
    and "HISTORY_LINES cfg \<le> VGA_WIDTH cfg * HISTORY_LINES cfg"
    and "2 * VGA_WIDTH cfg \<le> VGA_WIDTH cfg * HISTORY_LINES cfg"
    and "2 * (VGA_WIDTH cfg * HISTORY_LINES cfg) < 2 ^ 32"
proof -
  from assms show W: "0 < VGA_WIDTH cfg" and H: "0 < VGA_HEIGHT cfg"
    and HL: "VGA_HEIGHT cfg < HISTORY_LINES cfg"
    by (simp_all add: wf_vgapos_def wf_config_def)
  have "1 * HISTORY_LINES cfg \<le> VGA_WIDTH cfg * HISTORY_LINES cfg"
    using W H HL by (intro mult_right_mono) simp_all
  then show "HISTORY_LINES cfg \<le> VGA_WIDTH cfg * HISTORY_LINES cfg" by simp
  have "VGA_WIDTH cfg * 2 \<le> VGA_WIDTH cfg * HISTORY_LINES cfg"
    using W H HL by (intro mult_left_mono) simp_all
  then show "2 * VGA_WIDTH cfg \<le> VGA_WIDTH cfg * HISTORY_LINES cfg" by simp
  from assms have "VGAPOS_BITS cfg \<le> 32"
    and l: "VGA_WIDTH cfg * HISTORY_LINES cfg < 2 ^ (VGAPOS_BITS cfg - 1)"
    by (simp_all add: wf_vgapos_def wf_config_def)
  then have b: "VGAPOS_BITS cfg - 1 \<le> 31" by linarith
  have "(2::int) ^ (VGAPOS_BITS cfg - 1) \<le> 2 ^ 31"
    using b by (intro power_increasing) simp_all
  with l have "VGA_WIDTH cfg * HISTORY_LINES cfg < 2 ^ 31" by linarith
  then show "2 * (VGA_WIDTH cfg * HISTORY_LINES cfg) < 2 ^ 32" by (simp add: mult.commute)
qed

lemma to_vgapos_small:
  assumes "wf_vgapos cfg" and "- (VGA_WIDTH cfg * HISTORY_LINES cfg) \<le> v"
    and "v \<le> VGA_WIDTH cfg * HISTORY_LINES cfg"
  shows "to_vgapos cfg v = v"
proof -
  from assms(1) have "VGA_WIDTH cfg * HISTORY_LINES cfg < 2 ^ (VGAPOS_BITS cfg - 1)"
    by (simp add: wf_vgapos_def wf_config_def)
  with assms(2,3) show ?thesis by (intro to_vgapos_id) linarith+
qed

lemma to_vgapos_last_row:
  assumes "wf_vgapos cfg"
  shows "to_vgapos cfg (VGA_HEIGHT cfg - 1) = VGA_HEIGHT cfg - 1"
  using wf_vgapos_geometry [OF assms] by (intro to_vgapos_small [OF assms]) linarith+

lemma to_vgapos_bottom:
  assumes "wf_vgapos cfg"
  shows "to_vgapos cfg (HISTORY_LINES cfg - VGA_HEIGHT cfg) = HISTORY_LINES cfg - VGA_HEIGHT cfg"
  using wf_vgapos_geometry [OF assms] by (intro to_vgapos_small [OF assms]) linarith+

text \<open>
  The positions of a console that satisfies the invariant, and their
  neighbours, are \<^verbatim>\<open>vgapos_t\<close> values.
\<close>

lemma to_vgapos_position:
  assumes "wf_vgapos cfg" and "tty_invariant cfg t"
  shows "to_vgapos cfg (cursor_x t) = cursor_x t" and "to_vgapos cfg (cursor_y t) = cursor_y t"
    and "to_vgapos cfg (cursor_y t + 1) = cursor_y t + 1"
    and "to_vgapos cfg (screen_y t + 1) = screen_y t + 1"
    and "to_vgapos cfg (VGA_WIDTH cfg) = VGA_WIDTH cfg"
    and "to_vgapos cfg (- VGA_WIDTH cfg) = - VGA_WIDTH cfg"
proof -
  note g = wf_vgapos_geometry [OF assms(1)]
  from assms(2) have i: "0 \<le> cursor_x t" "cursor_x t < VGA_WIDTH cfg" "0 \<le> cursor_y t"
    "cursor_y t < VGA_HEIGHT cfg" "0 \<le> screen_y t"
    "screen_y t + VGA_HEIGHT cfg \<le> HISTORY_LINES cfg"
    by (simp_all add: tty_invariant_def)
  show "to_vgapos cfg (cursor_x t) = cursor_x t"
    using g i by (intro to_vgapos_small [OF assms(1)]) linarith+
  show "to_vgapos cfg (cursor_y t) = cursor_y t"
    using g i by (intro to_vgapos_small [OF assms(1)]) linarith+
  show "to_vgapos cfg (cursor_y t + 1) = cursor_y t + 1"
    using g i by (intro to_vgapos_small [OF assms(1)]) linarith+
  show "to_vgapos cfg (screen_y t + 1) = screen_y t + 1"
    using g i by (intro to_vgapos_small [OF assms(1)]) linarith+
  show "to_vgapos cfg (VGA_WIDTH cfg) = VGA_WIDTH cfg"
    using g by (intro to_vgapos_small [OF assms(1)]) linarith+
  show "to_vgapos cfg (- VGA_WIDTH cfg) = - VGA_WIDTH cfg"
    using g by (intro to_vgapos_small [OF assms(1)]) linarith+
qed

subsection \<open>Colours\<close>

lemma fg_mask: "NOT (ucast (0xFF :: 32 word)) = (0 :: 8 word)"
  by code_simp

lemma bg_mask: "NOT (ucast (push_bit 4 (0xFF :: 32 word))) = (0x0F :: 8 word)"
  by code_simp

lemma nibble_mask: "(0x0F :: 8 word) = mask 4"
  by (simp add: mask_eq_exp_minus_1)

lemma tty_set_fgcolor_eq: "tty_set_fgcolor t color = t\<lparr>current_color := color\<rparr>"
  unfolding tty_set_fgcolor_def Let_def fg_mask by simp

lemma tty_set_bgcolor_eq:
  "tty_set_bgcolor t color =
     t\<lparr>current_color := (current_color t AND 0x0F) OR push_bit 4 color\<rparr>"
  unfolding tty_set_bgcolor_def Let_def bg_mask by simp

lemma tty_set_bgcolor_fg:
  "current_color (tty_set_bgcolor t color) AND 0x0F = current_color t AND 0x0F"
  unfolding tty_set_bgcolor_eq nibble_mask
  by (rule bit_word_eqI) (auto simp: bit_simps)

lemma tty_set_bgcolor_bg:
  "drop_bit 4 (current_color (tty_set_bgcolor t color)) = color AND 0x0F"
  unfolding tty_set_bgcolor_eq nibble_mask
  by (rule bit_word_eqI) (auto simp: bit_simps)

subsection \<open>The blocks of tty_fix_pos\<close>

lemma fix_x_underflow_cursor_x:
  assumes "wf_vgapos cfg"
  shows "0 \<le> cursor_x (fix_x_underflow cfg t)"
proof (cases "cursor_x t < 0")
  case True
  note g = wf_vgapos_geometry [OF assms]
  define p where "p = to_vgapos cfg (- cursor_x t)"
  have "- VGA_WIDTH cfg < c_mod p (VGA_WIDTH cfg)" and "c_mod p (VGA_WIDTH cfg) < VGA_WIDTH cfg"
    using g(1) by (rule c_mod_bounds)+
  then have r: "0 < VGA_WIDTH cfg - c_mod p (VGA_WIDTH cfg)"
    "VGA_WIDTH cfg - c_mod p (VGA_WIDTH cfg) < 2 * VGA_WIDTH cfg"
    by linarith+
  then have "to_vgapos cfg (VGA_WIDTH cfg - c_mod p (VGA_WIDTH cfg)) =
      VGA_WIDTH cfg - c_mod p (VGA_WIDTH cfg)"
    using g(1,5) by (intro to_vgapos_small [OF assms]) linarith+
  with r True show ?thesis
    by (simp add: fix_x_underflow_def Let_def p_def)
next
  case False
  then show ?thesis by (simp add: fix_x_underflow_def)
qed

lemma fix_x_underflow_others [simp]:
  "screen_y (fix_x_underflow cfg t) = screen_y t"
  "history (fix_x_underflow cfg t) = history t"
  "current_color (fix_x_underflow cfg t) = current_color t"
  "prompted_chars (fix_x_underflow cfg t) = prompted_chars t"
  "freeze (fix_x_underflow cfg t) = freeze t"
  by (simp_all add: fix_x_underflow_def Let_def)

lemma fix_x_overflow_cursor_x:
  assumes "wf_vgapos cfg" and "0 \<le> cursor_x t"
  shows "0 \<le> cursor_x (fix_x_overflow cfg t) \<and> cursor_x (fix_x_overflow cfg t) < VGA_WIDTH cfg"
proof (cases "cursor_x t \<ge> VGA_WIDTH cfg")
  case True
  note g = wf_vgapos_geometry [OF assms(1)]
  have m: "c_mod (cursor_x t) (VGA_WIDTH cfg) = cursor_x t mod VGA_WIDTH cfg"
    using assms(2) g(1) by (rule c_mod_nonneg)
  have r: "0 \<le> cursor_x t mod VGA_WIDTH cfg" "cursor_x t mod VGA_WIDTH cfg < VGA_WIDTH cfg"
    using g(1) by simp_all
  then have "to_vgapos cfg (cursor_x t mod VGA_WIDTH cfg) = cursor_x t mod VGA_WIDTH cfg"
    using g(1,5) by (intro to_vgapos_small [OF assms(1)]) linarith+
  with r True show ?thesis
    by (simp add: fix_x_overflow_def Let_def m)
next
  case False
  then show ?thesis using assms(2) by (simp add: fix_x_overflow_def)
qed

lemma fix_x_overflow_others [simp]:
  "screen_y (fix_x_overflow cfg t) = screen_y t"
  "history (fix_x_overflow cfg t) = history t"
  "current_color (fix_x_overflow cfg t) = current_color t"
  "prompted_chars (fix_x_overflow cfg t) = prompted_chars t"
  "freeze (fix_x_overflow cfg t) = freeze t"
  by (simp_all add: fix_x_overflow_def Let_def)

lemma fix_y_underflow_cursor_y: "0 \<le> cursor_y (fix_y_underflow cfg t)"
  by (simp add: fix_y_underflow_def)

lemma fix_y_underflow_others [simp]:
  "cursor_x (fix_y_underflow cfg t) = cursor_x t"
  "history (fix_y_underflow cfg t) = history t"
  "current_color (fix_y_underflow cfg t) = current_color t"
  "prompted_chars (fix_y_underflow cfg t) = prompted_chars t"
  "freeze (fix_y_underflow cfg t) = freeze t"
  by (simp_all add: fix_y_underflow_def)

lemma fix_y_overflow_cursor_y:
  assumes "wf_vgapos cfg" and "0 \<le> cursor_y t"
  shows "0 \<le> cursor_y (fix_y_overflow cfg t) \<and> cursor_y (fix_y_overflow cfg t) < VGA_HEIGHT cfg"
  using assms(2) wf_vgapos_geometry(2) [OF assms(1)]
  by (simp add: fix_y_overflow_def to_vgapos_last_row [OF assms(1)])

lemma fix_y_overflow_others [simp]:
  "cursor_x (fix_y_overflow cfg t) = cursor_x t"
  "history (fix_y_overflow cfg t) = history t"
  "current_color (fix_y_overflow cfg t) = current_color t"
  "prompted_chars (fix_y_overflow cfg t) = prompted_chars t"
  "freeze (fix_y_overflow cfg t) = freeze t"
  by (simp_all add: fix_y_overflow_def)

lemma fix_screen_low_screen_y: "0 \<le> screen_y (fix_screen_low t)"
  by (simp add: fix_screen_low_def)

lemma fix_screen_low_others [simp]:
  "cursor_x (fix_screen_low t) = cursor_x t"
  "cursor_y (fix_screen_low t) = cursor_y t"
  "history (fix_screen_low t) = history t"
  "current_color (fix_screen_low t) = current_color t"
  "prompted_chars (fix_screen_low t) = prompted_chars t"
  "freeze (fix_screen_low t) = freeze t"
  by (simp_all add: fix_screen_low_def)

text \<open>Where the eviction block is not entered, or returns, the cursor is as before.\<close>

lemma fix_evict_Inr:
  assumes "fix_evict cfg t = Inr t'"
  shows "cursor_x t' = cursor_x t" and "cursor_y t' = cursor_y t"
    and "current_color t' = current_color t" and "prompted_chars t' = prompted_chars t"
    and "freeze t' = freeze t"
    and "length (history t') = length (history t)"
    and "(screen_y t + VGA_HEIGHT cfg < HISTORY_LINES cfg \<and> t' = t) \<or>
         (screen_y t + VGA_HEIGHT cfg \<ge> HISTORY_LINES cfg \<and>
          screen_y t' = to_vgapos cfg (HISTORY_LINES cfg - VGA_HEIGHT cfg))"
  using assms
  by (auto simp: fix_evict_def Let_def memmove_history_def tty_clear_portion_def
        length_fill_cells split: if_splits)

text \<open>A console that satisfies the invariant passes the first five blocks unchanged.\<close>

lemma fix_cursor_valid:
  assumes "tty_invariant cfg t"
  shows "fix_screen_low (fix_y_overflow cfg (fix_y_underflow cfg
           (fix_x_overflow cfg (fix_x_underflow cfg t)))) = t"
  using assms
  by (simp add: tty_invariant_def fix_x_underflow_def fix_x_overflow_def fix_y_underflow_def
        fix_y_overflow_def fix_screen_low_def)

lemma fix_y_valid:
  assumes "tty_invariant cfg t"
  shows "fix_screen_low (fix_y_overflow cfg (fix_y_underflow cfg t)) = t"
  using assms
  by (simp add: tty_invariant_def fix_y_underflow_def fix_y_overflow_def fix_screen_low_def)

text \<open>The eviction block, by the position of the viewport's last row.\<close>

lemma fix_evict_inside:
  "screen_y t + VGA_HEIGHT cfg < HISTORY_LINES cfg \<Longrightarrow> fix_evict cfg t = Inr t"
  by (simp add: fix_evict_def)

lemma fix_evict_fits:
  assumes cfg: "wf_vgapos cfg" and t: "wf_tty cfg t"
    and s: "screen_y t + VGA_HEIGHT cfg = HISTORY_LINES cfg"
  shows "fix_evict cfg t = Inl OutOfBounds"
proof -
  note g = wf_vgapos_geometry [OF cfg]
  define w where "w = nat (VGA_WIDTH cfg)"
  define n where "n = length (history t)"
  have wpos: "0 < w" and wW: "int w = VGA_WIDTH cfg" using g(1) by (simp_all add: w_def)
  have nWL: "int n = VGA_WIDTH cfg * HISTORY_LINES cfg"
    using t by (simp add: wf_tty_def n_def)
  have wn: "w \<le> n" using nWL wW g(1,5) by linarith
  have n32: "2 * int n < 2 ^ 32" using g(6) nWL by simp
  have diff: "size_t (VGA_WIDTH cfg) = w"
    using g(1) n32 wn wW by (simp add: size_t_def w_def)
  have sz: "size_t (int (sizeof_history t) - int w * 2) = 2 * n - 2 * w"
    using wn n32 by (simp add: size_t_def sizeof_history_def n_def [symmetric] nat_diff_distrib)
  have src: "size_t (int w * 2) = 2 * w"
    using wn n32 by (simp add: size_t_def)
  have "\<not> 2 * w + (2 * n - 2 * w) div 2 \<le> n"
    using wn wpos by simp
  then have "memmove_history (history t) (2 * w) (2 * n - 2 * w) = Inl OutOfBounds"
    by (simp add: memmove_history_def Let_def n_def)
  then show ?thesis
    using s by (simp add: fix_evict_def Let_def diff sz src)
qed

lemma wf_tty_length: "wf_vgapos cfg \<Longrightarrow> wf_tty cfg t \<Longrightarrow> 2 * int (length (history t)) < 2 ^ 32"
  using wf_vgapos_geometry(6) [of cfg] by (simp add: wf_tty_def)

lemma fix_evict_one_past:
  assumes cfg: "wf_vgapos cfg" and s: "screen_y t + VGA_HEIGHT cfg = HISTORY_LINES cfg + 1"
    and n: "2 * int (length (history t)) < 2 ^ 32"
  shows "fix_evict cfg t = Inr (t\<lparr>screen_y := HISTORY_LINES cfg - VGA_HEIGHT cfg\<rparr>)"
proof -
  have sz: "size_t (int (sizeof_history t)) = 2 * length (history t)"
    using n by (simp add: size_t_def sizeof_history_def)
  show ?thesis
    using s by (simp add: fix_evict_def Let_def sz memmove_history_def tty_clear_portion_def
        to_vgapos_bottom [OF cfg])
qed

text \<open>Whenever the eviction block returns, the history is as it was.\<close>

lemma fix_evict_Inr_history:
  assumes r: "fix_evict cfg t = Inr t'" and n: "2 * int (length (history t)) < 2 ^ 32"
  shows "history t' = history t"
proof (cases "screen_y t + VGA_HEIGHT cfg \<ge> HISTORY_LINES cfg")
  case False
  with r show ?thesis by (simp add: fix_evict_def)
next
  case True
  define m where
    "m = size_t (VGA_WIDTH cfg * (HISTORY_LINES cfg - (screen_y t + VGA_HEIGHT cfg) + 1))"
  define sz where "sz = size_t (int (sizeof_history t) - int (m * 2))"
  define N where "N = length (history t)"
  from r True have "and_then (memmove_history (history t) (size_t (int (m * 2))) sz)
        (\<lambda>h1. and_then (tty_clear_portion cfg h1 (sz div 2) m)
           (\<lambda>h2. Inr (t\<lparr>history := h2,
                         screen_y := to_vgapos cfg (HISTORY_LINES cfg - VGA_HEIGHT cfg)\<rparr>))) = Inr t'"
    by (simp add: fix_evict_def Let_def m_def sz_def)
  then obtain h1 h2 where
    mv: "memmove_history (history t) (size_t (int (m * 2))) sz = Inr h1"
    and cl: "tty_clear_portion cfg h1 (sz div 2) m = Inr h2"
    and t2: "t' = t\<lparr>history := h2,
                    screen_y := to_vgapos cfg (HISTORY_LINES cfg - VGA_HEIGHT cfg)\<rparr>"
    unfolding and_then_Inr by auto
  from cl t2 have t': "tty_clear_portion cfg h1 (sz div 2) m = Inr (history t')"
    by simp
  from mv have len1: "length h1 = N" and A: "size_t (int (m * 2)) + sz div 2 \<le> N"
    by (auto simp: memmove_history_def Let_def N_def split: if_splits)
  from t' len1 have Bd: "sz div 2 + m \<le> N"
    by (auto simp: tty_clear_portion_def split: if_splits)
  then have mN: "m \<le> N" by simp
  have szv: "sz = 2 * N - 2 * m"
    using mN n by (simp add: sz_def size_t_def sizeof_history_def N_def [symmetric] nat_diff_distrib)
  have srcv: "size_t (int (m * 2)) = 2 * m"
    using mN n by (simp add: size_t_def N_def [symmetric])
  from A szv srcv mN have m0: "m = 0" by simp
  from mv m0 szv srcv have "h1 = history t"
    by (simp add: memmove_history_def N_def)
  with t' m0 show ?thesis
    by (simp add: tty_clear_portion_def split: if_splits)
qed

subsection \<open>Normalisation\<close>

text \<open>Whenever normalisation returns, the console satisfies the invariant.\<close>

lemma tty_fix_pos_invariant:
  assumes cfg: "wf_vgapos cfg" and r: "tty_fix_pos cfg t = Inr t'"
  shows "tty_invariant cfg t'"
proof -
  define t1 where "t1 = fix_x_underflow cfg t"
  define t2 where "t2 = fix_x_overflow cfg t1"
  define t3 where "t3 = fix_y_underflow cfg t2"
  define t4 where "t4 = fix_y_overflow cfg t3"
  define t5 where "t5 = fix_screen_low t4"
  note g = wf_vgapos_geometry [OF cfg]
  have "0 \<le> cursor_x t1"
    unfolding t1_def using cfg by (rule fix_x_underflow_cursor_x)
  with cfg have x2: "0 \<le> cursor_x t2 \<and> cursor_x t2 < VGA_WIDTH cfg"
    unfolding t2_def by (rule fix_x_overflow_cursor_x)
  have "0 \<le> cursor_y t3"
    unfolding t3_def by (rule fix_y_underflow_cursor_y)
  with cfg have y4: "0 \<le> cursor_y t4 \<and> cursor_y t4 < VGA_HEIGHT cfg"
    unfolding t4_def by (rule fix_y_overflow_cursor_y)
  have x5: "0 \<le> cursor_x t5 \<and> cursor_x t5 < VGA_WIDTH cfg"
    using x2 by (simp add: t5_def t4_def t3_def)
  have y5: "0 \<le> cursor_y t5 \<and> cursor_y t5 < VGA_HEIGHT cfg"
    using y4 by (simp add: t5_def)
  have s5: "0 \<le> screen_y t5"
    unfolding t5_def by (rule fix_screen_low_screen_y)
  from r have e: "fix_evict cfg t5 = Inr t'"
    by (simp add: tty_fix_pos_def t5_def t4_def t3_def t2_def t1_def)
  note f = fix_evict_Inr [OF e]
  from f(7) s5 g(3) have "0 \<le> screen_y t' \<and> screen_y t' + VGA_HEIGHT cfg \<le> HISTORY_LINES cfg"
    by (auto simp: to_vgapos_bottom [OF cfg])
  with x5 y5 f(1,2) show ?thesis
    by (simp add: tty_invariant_def)
qed

lemma tty_fix_pos_inside:
  assumes "tty_invariant cfg t" and "screen_y t + VGA_HEIGHT cfg < HISTORY_LINES cfg"
  shows "tty_fix_pos cfg t = Inr t"
  using assms by (simp add: tty_fix_pos_def fix_cursor_valid fix_evict_inside)

lemma tty_fix_pos_bottom:
  assumes "wf_vgapos cfg" and "wf_tty cfg t" and "tty_invariant cfg t"
    and "screen_y t + VGA_HEIGHT cfg = HISTORY_LINES cfg"
  shows "tty_fix_pos cfg t = Inl OutOfBounds"
  using assms by (simp add: tty_fix_pos_def fix_cursor_valid fix_evict_fits)

lemma tty_fix_pos_Inr_history:
  assumes "tty_fix_pos cfg t = Inr t'" and "2 * int (length (history t)) < 2 ^ 32"
  shows "history t' = history t"
proof -
  have "history t' = history (fix_screen_low (fix_y_overflow cfg (fix_y_underflow cfg
       (fix_x_overflow cfg (fix_x_underflow cfg t)))))"
    using assms by (intro fix_evict_Inr_history) (simp_all add: tty_fix_pos_def)
  then show ?thesis by simp
qed

lemma tty_fix_pos_Inr_others:
  assumes "tty_fix_pos cfg t = Inr t'"
  shows "prompted_chars t' = prompted_chars t" and "freeze t' = freeze t"
    and "current_color t' = current_color t"
proof -
  from assms have e: "fix_evict cfg (fix_screen_low (fix_y_overflow cfg (fix_y_underflow cfg
       (fix_x_overflow cfg (fix_x_underflow cfg t))))) = Inr t'"
    by (simp add: tty_fix_pos_def)
  note f = fix_evict_Inr [OF e]
  from f(4) show "prompted_chars t' = prompted_chars t"
    by (simp add: fix_y_overflow_def fix_y_underflow_def)
  from f(5) show "freeze t' = freeze t" by simp
  from f(3) show "current_color t' = current_color t" by simp
qed

subsection \<open>Moves\<close>

text \<open>Moving back by the width from column 0 ends one row below, not above.\<close>

lemma tty_cursor_backward_width:
  assumes cfg: "wf_vgapos cfg" and inv: "tty_invariant cfg t"
    and x: "cursor_x t = 0" and y: "cursor_y t + 1 < VGA_HEIGHT cfg"
    and s: "screen_y t + VGA_HEIGHT cfg < HISTORY_LINES cfg"
  shows "tty_cursor_backward cfg t (nat (VGA_WIDTH cfg)) 0 = Inr (t\<lparr>cursor_y := cursor_y t + 1\<rparr>)"
proof -
  note g = wf_vgapos_geometry [OF cfg]
  note v = to_vgapos_position [OF cfg inv]
  define t0 where "t0 = t\<lparr>cursor_x := - VGA_WIDTH cfg\<rparr>"
  have 0: "t\<lparr>cursor_x := to_vgapos cfg (int (size_t (cursor_x t - int (nat (VGA_WIDTH cfg))))),
             cursor_y := to_vgapos cfg (int (size_t (cursor_y t - int 0)))\<rparr> = t0"
    using g(1) x by (simp add: to_vgapos_size_t [OF cfg] v t0_def)
  have 1: "fix_x_underflow cfg t0 = t\<lparr>cursor_x := VGA_WIDTH cfg\<rparr>"
    using g(1) by (simp add: t0_def fix_x_underflow_def Let_def c_mod_nonneg c_div_nonneg v)
  have 2: "fix_x_overflow cfg (t\<lparr>cursor_x := VGA_WIDTH cfg\<rparr>) = t\<lparr>cursor_y := cursor_y t + 1\<rparr>"
    using g(1) x by (simp add: fix_x_overflow_def Let_def c_mod_nonneg c_div_nonneg v)
  have 3: "tty_invariant cfg (t\<lparr>cursor_y := cursor_y t + 1\<rparr>)"
    using inv y by (simp add: tty_invariant_def)
  have "tty_fix_pos cfg t0 =
          fix_evict cfg (fix_screen_low (fix_y_overflow cfg (fix_y_underflow cfg
            (t\<lparr>cursor_y := cursor_y t + 1\<rparr>))))"
    by (simp only: tty_fix_pos_def 1 2)
  also have "\<dots> = fix_evict cfg (t\<lparr>cursor_y := cursor_y t + 1\<rparr>)"
    by (simp only: fix_y_valid [OF 3])
  also have "\<dots> = Inr (t\<lparr>cursor_y := cursor_y t + 1\<rparr>)"
    using s by (intro fix_evict_inside) simp
  finally show ?thesis by (simp only: tty_cursor_backward_def 0)
qed

text \<open>A newline on the last row of the viewport.\<close>

lemma newline_last_row:
  assumes cfg: "wf_vgapos cfg" and inv: "tty_invariant cfg t"
    and y: "cursor_y t = VGA_HEIGHT cfg - 1"
  shows "tty_newline cfg t =
     fix_evict cfg (t\<lparr>cursor_x := 0, screen_y := screen_y t + 1, cursor_y := VGA_HEIGHT cfg - 1\<rparr>)"
proof -
  note g = wf_vgapos_geometry [OF cfg]
  note v = to_vgapos_position [OF cfg inv]
  from inv have s: "0 \<le> screen_y t" by (simp add: tty_invariant_def)
  have 1: "to_vgapos cfg (VGA_HEIGHT cfg) = VGA_HEIGHT cfg" using v(3) y by simp
  show ?thesis
    using g(1,2) s y
    by (simp add: tty_newline_def tty_fix_pos_def fix_x_underflow_def fix_x_overflow_def
        fix_y_underflow_def fix_y_overflow_def fix_screen_low_def 1 v(4)
        to_vgapos_last_row [OF cfg])
qed

lemma tty_newline_reaches_bottom:
  assumes cfg: "wf_vgapos cfg" and t: "wf_tty cfg t" and inv: "tty_invariant cfg t"
    and y: "cursor_y t = VGA_HEIGHT cfg - 1"
    and s: "screen_y t + 1 + VGA_HEIGHT cfg = HISTORY_LINES cfg"
  shows "tty_newline cfg t = Inl OutOfBounds"
proof -
  have "fix_evict cfg (t\<lparr>cursor_x := 0, screen_y := screen_y t + 1,
          cursor_y := VGA_HEIGHT cfg - 1\<rparr>) = Inl OutOfBounds"
    using t s by (intro fix_evict_fits [OF cfg]) (simp_all add: wf_tty_def)
  then show ?thesis by (simp add: newline_last_row [OF cfg inv y])
qed

lemma tty_newline_at_bottom:
  assumes cfg: "wf_vgapos cfg" and t: "wf_tty cfg t" and inv: "tty_invariant cfg t"
    and y: "cursor_y t = VGA_HEIGHT cfg - 1"
    and s: "screen_y t + VGA_HEIGHT cfg = HISTORY_LINES cfg"
  shows "tty_newline cfg t = Inr (t\<lparr>cursor_x := 0\<rparr>)"
proof -
  have "fix_evict cfg (t\<lparr>cursor_x := 0, screen_y := screen_y t + 1,
          cursor_y := VGA_HEIGHT cfg - 1\<rparr>) =
        Inr (t\<lparr>cursor_x := 0, screen_y := screen_y t + 1, cursor_y := VGA_HEIGHT cfg - 1\<rparr>
              \<lparr>screen_y := HISTORY_LINES cfg - VGA_HEIGHT cfg\<rparr>)"
    using s wf_tty_length [OF cfg t] by (intro fix_evict_one_past [OF cfg]) simp_all
  also have "\<dots> = Inr (t\<lparr>cursor_x := 0\<rparr>)"
    using s y by simp
  finally show ?thesis by (simp add: newline_last_row [OF cfg inv y])
qed

subsection \<open>Erasing\<close>

lemma tty_erase_nothing_prompted:
  "prompted_chars (fst s) = 0 \<Longrightarrow> tty_erase cfg n s = Inr s"
  by (simp add: tty_erase_def Let_def)

text \<open>
  On a console whose viewport ends at the end of the history, erasing within
  the row of the cursor runs into the eviction block.
\<close>

lemma tty_erase_at_bottom:
  assumes cfg: "wf_vgapos cfg" and t: "wf_tty cfg t" and inv: "tty_invariant cfg t"
    and s: "screen_y t + VGA_HEIGHT cfg = HISTORY_LINES cfg"
    and p: "0 < prompted_chars t" and k: "int (prompted_chars t) \<le> cursor_x t"
  shows "tty_erase cfg n (t, d) = Inl OutOfBounds"
proof -
  define c where "c = (if n > prompted_chars t then prompted_chars t else n)"
  have ck: "int c \<le> cursor_x t" using k by (simp add: c_def)
  note g = wf_vgapos_geometry [OF cfg]
  from inv have i: "0 \<le> cursor_x t" "cursor_x t < VGA_WIDTH cfg" "0 \<le> cursor_y t"
    "cursor_y t < VGA_HEIGHT cfg"
    by (simp_all add: tty_invariant_def)
  have x: "to_vgapos cfg (cursor_x t - int c) = cursor_x t - int c"
    using g i ck by (intro to_vgapos_small [OF cfg]) linarith+
  have inv': "tty_invariant cfg (t\<lparr>cursor_x := cursor_x t - int c\<rparr>)"
    using inv ck by (simp add: tty_invariant_def)
  have w': "wf_tty cfg (t\<lparr>cursor_x := cursor_x t - int c\<rparr>)"
    using t by (simp add: wf_tty_def)
  have "tty_cursor_backward cfg t c 0 = tty_fix_pos cfg (t\<lparr>cursor_x := cursor_x t - int c\<rparr>)"
    by (simp add: tty_cursor_backward_def to_vgapos_size_t [OF cfg] x
        to_vgapos_position(2) [OF cfg inv])
  also have "\<dots> = Inl OutOfBounds"
    using s by (intro tty_fix_pos_bottom [OF cfg w' inv']) simp
  finally show ?thesis
    using p by (simp add: tty_erase_def Let_def flip: c_def)
qed

subsection \<open>Drawing\<close>

lemma update_tty_Inr: "update_tty cfg s = Inr s' \<Longrightarrow> fst s' = fst s"
  by (auto simp: update_tty_def Let_def and_then_Inr)

lemma wf_config_viewport:
  assumes "wf_config cfg"
  shows "0 \<le> VGA_WIDTH cfg * VGA_HEIGHT cfg"
    and "VGA_WIDTH cfg * VGA_HEIGHT cfg \<le> VGA_WIDTH cfg * HISTORY_LINES cfg"
    and "VGA_WIDTH cfg * VGA_HEIGHT cfg * 2 < 2 ^ 32"
proof -
  from assms have W: "0 < VGA_WIDTH cfg" and H: "0 < VGA_HEIGHT cfg"
    and HL: "VGA_HEIGHT cfg < HISTORY_LINES cfg"
    and B: "2 * (VGA_WIDTH cfg * HISTORY_LINES cfg) < 2 ^ 32"
    by (simp_all add: wf_config_def)
  show 1: "0 \<le> VGA_WIDTH cfg * VGA_HEIGHT cfg" using W H by simp
  show 2: "VGA_WIDTH cfg * VGA_HEIGHT cfg \<le> VGA_WIDTH cfg * HISTORY_LINES cfg"
    using W HL by (intro mult_left_mono) simp_all
  from 2 B show "VGA_WIDTH cfg * VGA_HEIGHT cfg * 2 < 2 ^ 32" by linarith
qed

text \<open>Drawing a console whose viewport starts at the top of the history.\<close>

lemma update_tty_top:
  assumes cfg: "wf_config cfg" and t: "wf_tty cfg t" and s: "screen_y t = 0"
  shows "update_tty cfg (t, d) =
     Inr (t, d\<lparr>vga_buffer := take (nat (VGA_WIDTH cfg * VGA_HEIGHT cfg)) (history t)
                     @ drop (nat (VGA_WIDTH cfg * VGA_HEIGHT cfg)) (vga_buffer d),
              vga_cursor := (cursor_x t, cursor_y t)\<rparr>)"
proof -
  note v = wf_config_viewport [OF cfg]
  from cfg have HL: "VGA_HEIGHT cfg \<le> HISTORY_LINES cfg" by (simp add: wf_config_def)
  have b: "size_t (VGA_WIDTH cfg * VGA_HEIGHT cfg * 2) = 2 * nat (VGA_WIDTH cfg * VGA_HEIGHT cfg)"
    using v by (simp add: size_t_id nat_mult_distrib)
  have l: "nat (VGA_WIDTH cfg * VGA_HEIGHT cfg) \<le> length (history t)"
    using t v by (simp add: wf_tty_def nat_le_iff)
  show ?thesis
    using HL l by (simp add: update_tty_def Let_def s b history_read_def)
qed

subsection \<open>The loop of tty_write\<close>

lemma tty_write_loop_done:
  "\<not> i < count \<Longrightarrow> tty_write_loop cfg ansi_handle buffer count i s = Some (Inr s)"
  by (subst tty_write_loop.simps) simp

lemma tty_write_loop_step:
  assumes "i < count" and "i < length buffer" and "buffer ! i \<noteq> ANSI_ESCAPE cfg"
    and "tty_putchar cfg (buffer ! i) False s = Inr s1" and "update_tty cfg s1 = Inr s2"
  shows "tty_write_loop cfg ansi_handle buffer count i s =
         tty_write_loop cfg ansi_handle buffer count (size_t (int i + 1)) s2"
  using assms by (subst tty_write_loop.simps) simp

lemma tty_write_loop_fault:
  assumes "i < count" and "i < length buffer" and "buffer ! i \<noteq> ANSI_ESCAPE cfg"
    and "tty_putchar cfg (buffer ! i) False s = Inl e"
  shows "tty_write_loop cfg ansi_handle buffer count i s = Some (Inl e)"
  using assms by (subst tty_write_loop.simps) simp

lemma tty_write_guards:
  "buffer = None \<or> count = 0 \<or> fst s = None \<Longrightarrow>
     tty_write cfg ansi_handle buffer count s = Some (Inr s)"
  by (auto simp: tty_write_def split: option.splits)

subsection \<open>The freeze flag\<close>

text \<open>
  The redraw is gated by \<open>freeze\<close> in \<^verbatim>\<open>tty_erase\<close> and in the keyboard hook:
  on a frozen console they leave the text buffer and the hardware cursor as
  they are.
\<close>

lemma tty_putchar_no_update:
  assumes "tty_putchar cfg c False s = Inr s'"
  shows "vga_buffer (snd s') = vga_buffer (snd s)" and "vga_cursor (snd s') = vga_cursor (snd s)"
  using assms
  by (auto simp: tty_putchar_def Let_def and_then_Inr split: if_splits)

lemma tty_erase_frozen:
  assumes "freeze (fst s)" and "tty_erase cfg n s = Inr s'"
  shows "snd s' = snd s"
proof (cases "prompted_chars (fst s) = 0")
  case True
  with assms(2) show ?thesis by (simp add: tty_erase_def Let_def)
next
  case False
  define k where "k = (if n > prompted_chars (fst s) then prompted_chars (fst s) else n)"
  define blank :: "tty \<Rightarrow> fault + cell list" where "blank = (\<lambda>t1.
      let begin = to_vgapos cfg (HISTORY_POS cfg (screen_y t1) (cursor_x t1) (cursor_y t1));
          lo = size_t begin; hi = size_t (begin + int k) in
      if hi \<le> lo then Inr (history t1)
      else if hi \<le> length (history t1)
      then Inr (fill_cells (EMPTY_CHAR cfg) (history t1) lo (hi - lo))
      else Inl OutOfBounds)"
  have "tty_erase cfg n s =
      and_then (tty_cursor_backward cfg (fst s) k 0)
        (\<lambda>t1. and_then (blank t1)
           (\<lambda>h. and_then (if \<not> freeze (t1\<lparr>history := h\<rparr>)
                          then update_tty cfg (t1\<lparr>history := h\<rparr>, snd s)
                          else Inr (t1\<lparr>history := h\<rparr>, snd s))
              (\<lambda>s3. Inr ((fst s3)\<lparr>prompted_chars := prompted_chars (fst s3) - k\<rparr>,
                          snd s3))))"
    using False by (simp add: tty_erase_def Let_def blank_def flip: k_def)
  with assms(2) have "and_then (tty_cursor_backward cfg (fst s) k 0)
        (\<lambda>t1. and_then (blank t1)
           (\<lambda>h. and_then (if \<not> freeze (t1\<lparr>history := h\<rparr>)
                          then update_tty cfg (t1\<lparr>history := h\<rparr>, snd s)
                          else Inr (t1\<lparr>history := h\<rparr>, snd s))
              (\<lambda>s3. Inr ((fst s3)\<lparr>prompted_chars := prompted_chars (fst s3) - k\<rparr>,
                          snd s3)))) = Inr s'"
    by simp
  then obtain t1 h s3 where
    b: "tty_cursor_backward cfg (fst s) k 0 = Inr t1"
    and u: "(if \<not> freeze (t1\<lparr>history := h\<rparr>) then update_tty cfg (t1\<lparr>history := h\<rparr>, snd s)
             else Inr (t1\<lparr>history := h\<rparr>, snd s)) = Inr s3"
    and r: "snd s' = snd s3"
    unfolding and_then_Inr by auto
  from b have "freeze t1 = freeze (fst s)"
    by (auto simp: tty_cursor_backward_def dest: tty_fix_pos_Inr_others(2))
  with assms(1) u r show ?thesis by auto
qed

lemma tty_input_hook_frozen:
  assumes "freeze (fst s)" and "\<not> keyboard_is_ctrl_enabled kb"
    and "tty_input_hook cfg kb code s = Inr s'"
  shows "vga_buffer (snd s') = vga_buffer (snd s)" and "vga_cursor (snd s') = vga_cursor (snd s)"
  using assms
  by (auto simp: tty_input_hook_def Let_def and_then_Inr dest: tty_putchar_no_update)

subsection \<open>The concrete console\<close>

lemma wf_vga_config: "wf_config vga_config"
  by (simp add: wf_config_def vga_config_def)

lemma wf_vgapos_vga_config: "wf_vgapos vga_config"
  by (simp add: wf_vgapos_def wf_vga_config) (simp add: vga_config_def)

lemma vga_config_simps:
  "VGA_WIDTH vga_config = 80" "VGA_HEIGHT vga_config = 25" "HISTORY_LINES vga_config = 200"
  "EMPTY_CHAR vga_config = 0x0700" "VGA_DEFAULT_COLOR vga_config = 0x07"
  "TAB_SIZE vga_config = 8" "ANSI_ESCAPE vga_config = 0x1B" "VGAPOS_BITS vga_config = 16"
  by (simp_all add: vga_config_def)

lemma to_vgapos_vga: "- 32768 \<le> v \<Longrightarrow> v < 32768 \<Longrightarrow> to_vgapos vga_config v = v"
  by (rule to_vgapos_id) (simp_all add: vga_config_def)

lemma size_t_numeral: "size_t 1 = 1"
  by (simp add: size_t_def)

lemma wf_cleared_tty: "0 \<le> VGA_WIDTH cfg * HISTORY_LINES cfg \<Longrightarrow> wf_tty cfg (cleared_tty cfg)"
  by (simp add: wf_tty_def cleared_tty_def)

lemma glyph_cell_A: "glyph_cell 0x41 0x07 = 0x0741"
  by code_simp

lemma replicate_update_same: "(replicate n x)[i := x] = replicate n x"
  by (cases "i < n") (auto intro!: nth_equalityI simp: nth_list_update)

lemma putchar_A_example:
  "tty_putchar vga_config 0x41 False
     ((cleared_tty vga_config)\<lparr>freeze := True\<rparr>, cleared_hw vga_config) =
   Inr ((cleared_tty vga_config)\<lparr>cursor_x := 1,
          history := (history (cleared_tty vga_config))[0 := 0x0741], freeze := True\<rparr>,
        cleared_hw vga_config)"
  by (simp add: tty_putchar_def tty_cursor_forward_def size_t_numeral to_vgapos_vga
      tty_fix_pos_def fix_x_underflow_def fix_x_overflow_def fix_y_underflow_def
      fix_y_overflow_def fix_screen_low_def fix_evict_def history_store_def HISTORY_POS_def
      cleared_tty_def vga_config_simps Let_def glyph_cell_A)

lemma update_A_example:
  "update_tty vga_config
     ((cleared_tty vga_config)\<lparr>cursor_x := 1,
          history := (history (cleared_tty vga_config))[0 := 0x0741], freeze := True\<rparr>,
      cleared_hw vga_config) =
   Inr ((cleared_tty vga_config)\<lparr>cursor_x := 1,
          history := (history (cleared_tty vga_config))[0 := 0x0741], freeze := True\<rparr>,
        (cleared_hw vga_config)\<lparr>vga_buffer := (vga_buffer (cleared_hw vga_config))[0 := 0x0741],
          vga_cursor := (1, 0)\<rparr>)"
proof -
  let ?t = "(cleared_tty vga_config)\<lparr>cursor_x := 1,
          history := (history (cleared_tty vga_config))[0 := 0x0741], freeze := True\<rparr>"
  have w: "wf_tty vga_config ?t"
    by (simp add: wf_tty_def cleared_tty_def vga_config_def)
  have s: "screen_y ?t = 0" by (simp add: cleared_tty_def)
  show ?thesis
    unfolding update_tty_top [OF wf_vga_config w s]
    by (simp add: cleared_tty_def cleared_hw_def vga_config_def take_update_swap)
qed

lemma cursor_forward_rows_example:
  "tty_cursor_forward vga_config ((cleared_tty vga_config)\<lparr>cursor_y := 24, screen_y := 174\<rparr>) 0 3 =
     fix_evict vga_config ((cleared_tty vga_config)\<lparr>cursor_y := 24, screen_y := 177\<rparr>)"
  by (simp add: tty_cursor_forward_def size_t_def to_vgapos_vga
      tty_fix_pos_def fix_x_underflow_def fix_x_overflow_def fix_y_underflow_def
      fix_y_overflow_def fix_screen_low_def cleared_tty_def vga_config_simps)

lemma fix_evict_two_past_example:
  "fix_evict vga_config ((cleared_tty vga_config)\<lparr>cursor_y := 24, screen_y := 177\<rparr>) =
     Inl OutOfBounds"
proof -
  let ?t = "(cleared_tty vga_config)\<lparr>cursor_y := 24, screen_y := 177\<rparr>"
  have l: "length (history (cleared_tty vga_config)) = 16000"
    by (simp add: cleared_tty_def vga_config_simps)
  have diff: "size_t (VGA_WIDTH vga_config *
      (HISTORY_LINES vga_config - (screen_y ?t + VGA_HEIGHT vga_config) + 1)) = 4294967216"
    by (simp add: size_t_def vga_config_simps)
  have sz: "size_t (int (sizeof_history ?t) - int (4294967216 * 2)) = 32160"
    by (simp add: size_t_def sizeof_history_def l)
  have src: "size_t (int (4294967216 * 2)) = 4294967136"
    by (simp add: size_t_def)
  have m: "memmove_history (history ?t) 4294967136 32160 = Inl OutOfBounds"
    by (simp add: memmove_history_def l)
  have "screen_y ?t + VGA_HEIGHT vga_config \<ge> HISTORY_LINES vga_config"
    by (simp add: vga_config_simps)
  then show ?thesis
    unfolding fix_evict_def Let_def diff sz src m by simp
qed

text \<open>
  A delta of \<open>2 ^ 32 - 1\<close> moves the cursor one column back: the sum wraps in
  \<^verbatim>\<open>size_t\<close>.
\<close>

lemma cursor_forward_wraps_example:
  "tty_cursor_forward vga_config ((cleared_tty vga_config)\<lparr>cursor_x := 5\<rparr>) 4294967295 0 =
     Inr ((cleared_tty vga_config)\<lparr>cursor_x := 4\<rparr>)"
  by (simp add: tty_cursor_forward_def size_t_def to_vgapos_vga
      tty_fix_pos_def fix_x_underflow_def fix_x_overflow_def fix_y_underflow_def
      fix_y_overflow_def fix_screen_low_def fix_evict_def cleared_tty_def vga_config_simps)

subsection \<open>The console after a typed row\<close>

lemma typed_row_tty_simps:
  "cursor_x typed_row_tty = 0" "cursor_y typed_row_tty = 1" "screen_y typed_row_tty = 0"
  "prompted_chars typed_row_tty = 80" "freeze typed_row_tty = False"
  "history typed_row_tty = replicate 80 0x0741 @ replicate 15920 0x0700"
  by (simp_all add: typed_row_tty_def cleared_tty_def)

lemma typed_row_tty_valid:
  "wf_tty vga_config typed_row_tty" "tty_invariant vga_config typed_row_tty"
  by (simp_all add: wf_tty_def tty_invariant_def typed_row_tty_simps vga_config_simps)

lemma typed_row_backward:
  "tty_cursor_backward vga_config typed_row_tty 80 0 = Inr (typed_row_tty\<lparr>cursor_y := 2\<rparr>)"
proof -
  have "tty_cursor_backward vga_config typed_row_tty (nat (VGA_WIDTH vga_config)) 0 =
        Inr (typed_row_tty\<lparr>cursor_y := cursor_y typed_row_tty + 1\<rparr>)"
    by (rule tty_cursor_backward_width [OF wf_vgapos_vga_config typed_row_tty_valid(2)])
       (simp_all add: typed_row_tty_simps vga_config_simps)
  then show ?thesis by (simp add: typed_row_tty_simps vga_config_simps)
qed

lemma typed_row_blank:
  "fill_cells (EMPTY_CHAR vga_config) (history typed_row_tty) 160 80 = history typed_row_tty"
  by (rule fill_cells_same) (simp_all add: typed_row_tty_simps vga_config_simps nth_append)

lemma typed_row_update:
  "update_tty vga_config (typed_row_tty\<lparr>cursor_y := 2\<rparr>, typed_row_hw) =
     Inr (typed_row_tty\<lparr>cursor_y := 2\<rparr>, typed_row_hw\<lparr>vga_cursor := (0, 2)\<rparr>)"
proof -
  have w: "wf_tty vga_config (typed_row_tty\<lparr>cursor_y := 2\<rparr>)"
    using typed_row_tty_valid(1) by (simp add: wf_tty_def)
  have s: "screen_y (typed_row_tty\<lparr>cursor_y := 2\<rparr>) = 0"
    by (simp add: typed_row_tty_simps)
  show ?thesis
    unfolding update_tty_top [OF wf_vga_config w s]
    by (simp add: typed_row_tty_simps typed_row_hw_def cleared_hw_def vga_config_simps)
qed

section \<open>The claims\<close>

text \<open>
  C1: every relative cursor move, glyph write and newline ends in
  \<^verbatim>\<open>tty_fix_pos\<close>, and the console is claimed to satisfy
  \<open>0 \<le> cursor_x < VGA_WIDTH\<close>, \<open>0 \<le> cursor_y < VGA_HEIGHT\<close>, \<open>0 \<le> screen_y\<close> and
  \<open>screen_y + VGA_HEIGHT \<le> HISTORY_LINES\<close> after each of them, whatever the
  deltas. Where the eviction block stays within the history it does (lemma
  \<open>tty_fix_pos_invariant\<close>), but the block does not for every move. The
  console with the cursor on the last row of a viewport that ends one row
  above the end of the history satisfies the invariant and is reached by 198
  newlines on a cleared console. Moving the cursor three rows forward on it
  takes the viewport two rows beyond the history: the block computes
  \<open>diff = 80 * (200 - 202 + 1) = - 80\<close>, which is \<open>2 ^ 32 - 80\<close> as a \<^verbatim>\<open>size_t\<close>,
  and the size \<open>32000 - 2 * diff = 32160\<close> bytes: \<^verbatim>\<open>memmove\<close> writes 16080 cells
  into a history of 16000, and \<^verbatim>\<open>tty_clear_portion\<close> is then asked to blank
  \<open>2 ^ 32 - 80\<close> cells from cell 16080 on. The operation does not end in a
  console that satisfies the invariant; it overwrites memory beyond the
  history.
\<close>

theorem tty_cursor_forward_writes_beyond_history:
  "tty_invariant vga_config ((cleared_tty vga_config)\<lparr>cursor_y := 24, screen_y := 174\<rparr>) \<and>
   tty_cursor_forward vga_config ((cleared_tty vga_config)\<lparr>cursor_y := 24, screen_y := 174\<rparr>) 0 3 =
     Inl OutOfBounds"
  by (simp add: cursor_forward_rows_example fix_evict_two_past_example)
     (simp add: tty_invariant_def cleared_tty_def vga_config_simps)

text \<open>
  C2: the eviction block of \<^verbatim>\<open>tty_fix_pos\<close> is claimed to discard exactly the
  rows needed for the viewport to fit, to shift the rest up by as many rows
  and to blank the rows exposed at the end. It does not. A newline on the
  last row of a viewport that ends one row above the end of the history
  enters the block with \<open>screen_y + VGA_HEIGHT = HISTORY_LINES\<close>: the block
  takes one row as \<open>diff\<close> and its \<^verbatim>\<open>memmove\<close> reads from
  \<^verbatim>\<open>history + diff * sizeof(uint16_t)\<close>, two rows ahead, up to one row beyond
  the array. A newline on the last row of a viewport that ends at the end of
  the history enters the block with \<open>screen_y + VGA_HEIGHT = HISTORY_LINES + 1\<close>:
  \<open>diff\<close> is 0, no row is discarded or blanked, and the console is exactly
  as it was before the newline.
\<close>

theorem eviction_discards_wrong_rows:
  "tty_newline vga_config ((cleared_tty vga_config)\<lparr>cursor_y := 24, screen_y := 174\<rparr>) =
     Inl OutOfBounds \<and>
   tty_newline vga_config
     ((cleared_tty vga_config)\<lparr>cursor_y := 24, screen_y := 175,
        history := (history (cleared_tty vga_config))[0 := 0x0741]\<rparr>) =
     Inr ((cleared_tty vga_config)\<lparr>cursor_y := 24, screen_y := 175,
        history := (history (cleared_tty vga_config))[0 := 0x0741]\<rparr>)"
proof
  show "tty_newline vga_config ((cleared_tty vga_config)\<lparr>cursor_y := 24, screen_y := 174\<rparr>) =
     Inl OutOfBounds"
    by (rule tty_newline_reaches_bottom [OF wf_vgapos_vga_config])
       (simp_all add: wf_tty_def tty_invariant_def cleared_tty_def vga_config_def)
next
  let ?t = "(cleared_tty vga_config)\<lparr>cursor_y := 24, screen_y := 175,
        history := (history (cleared_tty vga_config))[0 := 0x0741]\<rparr>"
  have "tty_newline vga_config ?t = Inr (?t\<lparr>cursor_x := 0\<rparr>)"
    by (rule tty_newline_at_bottom [OF wf_vgapos_vga_config])
       (simp_all add: wf_tty_def tty_invariant_def cleared_tty_def vga_config_def)
  then show "tty_newline vga_config ?t = Inr ?t"
    by (simp add: cleared_tty_def)
qed

text \<open>
  C3: moving the cursor back by exactly the width from column 0 of row \<open>y\<close> is
  claimed to end at column 0 of row \<open>y - 1\<close>. From row 5 the code ends at
  column 0 of row 6: the underflow block adds \<open>p / VGA_WIDTH - 1 = 0\<close> rows
  and leaves \<open>cursor_x = VGA_WIDTH\<close>, which the overflow block wraps to the
  next row.
\<close>

theorem tty_cursor_backward_width_moves_down:
  "tty_cursor_backward vga_config ((cleared_tty vga_config)\<lparr>cursor_y := 5\<rparr>) 80 0 =
     Inr ((cleared_tty vga_config)\<lparr>cursor_y := 6\<rparr>)"
proof -
  have "tty_cursor_backward vga_config ((cleared_tty vga_config)\<lparr>cursor_y := 5\<rparr>)
          (nat (VGA_WIDTH vga_config)) 0 =
        Inr ((cleared_tty vga_config)\<lparr>cursor_y := 5\<rparr>
              \<lparr>cursor_y := cursor_y ((cleared_tty vga_config)\<lparr>cursor_y := 5\<rparr>) + 1\<rparr>)"
    by (rule tty_cursor_backward_width [OF wf_vgapos_vga_config])
       (simp_all add: tty_invariant_def cleared_tty_def vga_config_def)
  then show ?thesis by (simp add: vga_config_def)
qed

text \<open>
  C4: normalisation is claimed to leave a console that satisfies the
  invariant as it is, also where \<open>screen_y + VGA_HEIGHT = HISTORY_LINES\<close>, and
  to give the same state when run twice as when run once. The console at
  the bottom of the history satisfies the invariant, it is what
  \<^verbatim>\<open>tty_fix_pos\<close> returns for a cursor two rows below the viewport, and
  \<^verbatim>\<open>tty_fix_pos\<close> on it enters the eviction block again and reads beyond
  the history.
\<close>

theorem tty_fix_pos_not_idempotent_at_bottom:
  "tty_invariant vga_config ((cleared_tty vga_config)\<lparr>cursor_y := 24, screen_y := 175\<rparr>) \<and>
   tty_fix_pos vga_config ((cleared_tty vga_config)\<lparr>cursor_y := 26, screen_y := 174\<rparr>) =
     Inr ((cleared_tty vga_config)\<lparr>cursor_y := 24, screen_y := 175\<rparr>) \<and>
   tty_fix_pos vga_config ((cleared_tty vga_config)\<lparr>cursor_y := 24, screen_y := 175\<rparr>) =
     Inl OutOfBounds"
proof (intro conjI)
  show inv: "tty_invariant vga_config ((cleared_tty vga_config)\<lparr>cursor_y := 24, screen_y := 175\<rparr>)"
    by (simp add: tty_invariant_def cleared_tty_def vga_config_def)
  show "tty_fix_pos vga_config ((cleared_tty vga_config)\<lparr>cursor_y := 24, screen_y := 175\<rparr>) =
     Inl OutOfBounds"
    by (rule tty_fix_pos_bottom [OF wf_vgapos_vga_config _ inv])
       (simp_all add: wf_tty_def cleared_tty_def vga_config_def)
  have "fix_evict vga_config ((cleared_tty vga_config)\<lparr>cursor_y := 24, screen_y := 176\<rparr>) =
     Inr ((cleared_tty vga_config)\<lparr>cursor_y := 24, screen_y := 176\<rparr>
           \<lparr>screen_y := HISTORY_LINES vga_config - VGA_HEIGHT vga_config\<rparr>)"
    by (rule fix_evict_one_past [OF wf_vgapos_vga_config])
       (simp_all add: cleared_tty_def vga_config_simps)
  then show "tty_fix_pos vga_config ((cleared_tty vga_config)\<lparr>cursor_y := 26, screen_y := 174\<rparr>) =
     Inr ((cleared_tty vga_config)\<lparr>cursor_y := 24, screen_y := 175\<rparr>)"
    by (simp add: tty_fix_pos_def fix_x_underflow_def fix_x_overflow_def to_vgapos_vga
        fix_y_underflow_def fix_y_overflow_def fix_screen_low_def cleared_tty_def
        vga_config_simps)
qed

text \<open>
  C5: on a frozen console \<^verbatim>\<open>tty_write\<close> is claimed to change the history and
  leave the display as it is. \<^verbatim>\<open>tty_write\<close> calls \<^verbatim>\<open>update_tty\<close> after every byte
  and never reads \<open>freeze\<close> (\<^verbatim>\<open>tty_erase\<close> and the keyboard hook do, see
  \<open>tty_erase_frozen\<close> and \<open>tty_input_hook_frozen\<close>): writing
  the letter A to a cleared, frozen console puts the glyph into the first cell
  of the display, which held the empty cell, and moves the hardware cursor.
\<close>

theorem tty_write_draws_while_frozen:
  "freeze ((cleared_tty vga_config)\<lparr>freeze := True\<rparr>) \<and>
   tty_write vga_config ansi_handle (Some [0x41]) 1
     (Some ((cleared_tty vga_config)\<lparr>freeze := True\<rparr>), cleared_hw vga_config) =
   Some (Inr (Some ((cleared_tty vga_config)\<lparr>cursor_x := 1,
                history := (history (cleared_tty vga_config))[0 := 0x0741], freeze := True\<rparr>),
              (cleared_hw vga_config)\<lparr>
                vga_buffer := (vga_buffer (cleared_hw vga_config))[0 := 0x0741],
                vga_cursor := (1, 0)\<rparr>)) \<and>
   vga_buffer (cleared_hw vga_config) ! 0 = 0x0700 \<and>
   (vga_buffer (cleared_hw vga_config))[0 := 0x0741] ! 0 = 0x0741"
proof -
  have p: "tty_putchar vga_config ([0x41] ! 0) False
     ((cleared_tty vga_config)\<lparr>freeze := True\<rparr>, cleared_hw vga_config) =
   Inr ((cleared_tty vga_config)\<lparr>cursor_x := 1,
          history := (history (cleared_tty vga_config))[0 := 0x0741], freeze := True\<rparr>,
        cleared_hw vga_config)"
    using putchar_A_example by simp
  have "tty_write_loop vga_config ansi_handle [0x41] 1 0
          ((cleared_tty vga_config)\<lparr>freeze := True\<rparr>, cleared_hw vga_config) =
        tty_write_loop vga_config ansi_handle [0x41] 1 (size_t (int 0 + 1))
          ((cleared_tty vga_config)\<lparr>cursor_x := 1,
              history := (history (cleared_tty vga_config))[0 := 0x0741], freeze := True\<rparr>,
           (cleared_hw vga_config)\<lparr>
              vga_buffer := (vga_buffer (cleared_hw vga_config))[0 := 0x0741],
              vga_cursor := (1, 0)\<rparr>)"
    by (rule tty_write_loop_step [OF _ _ _ p update_A_example])
       (simp_all add: vga_config_def)
  also have "\<dots> = Some (Inr ((cleared_tty vga_config)\<lparr>cursor_x := 1,
              history := (history (cleared_tty vga_config))[0 := 0x0741], freeze := True\<rparr>,
           (cleared_hw vga_config)\<lparr>
              vga_buffer := (vga_buffer (cleared_hw vga_config))[0 := 0x0741],
              vga_cursor := (1, 0)\<rparr>))"
    by (rule tty_write_loop_done) (simp add: size_t_def)
  finally show ?thesis
    by (simp add: tty_write_def) (simp add: cleared_hw_def vga_config_def)
qed

text \<open>
  C6: \<^verbatim>\<open>tty_erase\<close> with a count above \<open>prompted_chars = k\<close> is claimed to erase
  exactly the \<open>k\<close> characters typed and to leave \<open>prompted_chars = 0\<close>; with
  \<open>prompted_chars = 0\<close> it is a no-op (lemma \<open>tty_erase_nothing_prompted\<close>).
  After the letter A has been typed 80 times on a cleared console, the first
  row of the history and of the display holds the 80 glyphs and the cursor is
  at column 0 of row 1. \<^verbatim>\<open>tty_erase\<close> with count 81 clamps the count to 80 and
  moves the cursor back by 80 columns, the width of a row, which
  \<^verbatim>\<open>tty_fix_pos\<close> turns into column 0 of row 2 (lemma
  \<open>tty_cursor_backward_width\<close>). The loop then blanks the 80 cells from the new
  cursor on: they are row 2, which is blank already. \<open>prompted_chars\<close> is 0
  afterwards, but not one of the 80 characters is erased: the history and the
  text on the display are as before, and the cursor is one row further down.
\<close>

theorem tty_erase_blanks_wrong_row:
  "tty_invariant vga_config typed_row_tty \<and>
   prompted_chars typed_row_tty = 80 \<and>
   take 80 (history typed_row_tty) = replicate 80 0x0741 \<and>
   vga_buffer typed_row_hw = take 2000 (history typed_row_tty) \<and>
   tty_erase vga_config 81 (typed_row_tty, typed_row_hw) =
     Inr (typed_row_tty\<lparr>cursor_y := 2, prompted_chars := 0\<rparr>,
          typed_row_hw\<lparr>vga_cursor := (0, 2)\<rparr>)"
proof (intro conjI)
  show "tty_invariant vga_config typed_row_tty" by (rule typed_row_tty_valid(2))
  show "prompted_chars typed_row_tty = 80" by (rule typed_row_tty_simps(4))
  show "take 80 (history typed_row_tty) = replicate 80 0x0741"
    by (simp add: typed_row_tty_simps)
  show "vga_buffer typed_row_hw = take 2000 (history typed_row_tty)"
    by (simp add: typed_row_tty_simps typed_row_hw_def)
  have b: "to_vgapos vga_config (HISTORY_POS vga_config 0 0 2) = 160"
    by (simp add: HISTORY_POS_def vga_config_simps to_vgapos_vga)
  have lo: "size_t 160 = 160" and hi: "size_t 240 = 240"
    by (simp_all add: size_t_def)
  have l: "length (history typed_row_tty) = 16000"
    by (simp add: typed_row_tty_simps)
  show "tty_erase vga_config 81 (typed_row_tty, typed_row_hw) =
     Inr (typed_row_tty\<lparr>cursor_y := 2, prompted_chars := 0\<rparr>,
          typed_row_hw\<lparr>vga_cursor := (0, 2)\<rparr>)"
  proof -
    have "(typed_row_tty\<lparr>cursor_y := 2\<rparr>)\<lparr>history := history typed_row_tty\<rparr> =
        typed_row_tty\<lparr>cursor_y := 2\<rparr>"
      by simp
    then show ?thesis
      by (simp add: tty_erase_def Let_def typed_row_tty_simps(1-5) typed_row_backward b lo hi l
          typed_row_blank typed_row_update)
  qed
qed

text \<open>
  C7: the colour attribute holds the foreground in bits 0-3 and the background
  in bits 4-7; setting the foreground is claimed to leave the background
  nibble alone. \<^verbatim>\<open>tty_set_fgcolor\<close> clears with the mask \<open>0xff\<close>, the whole
  attribute, where \<^verbatim>\<open>tty_set_bgcolor\<close> clears its own nibble only: on a console
  that writes light grey on blue (\<open>0x17\<close>), setting the foreground to green
  (\<open>0x02\<close>) turns the background nibble from 1 (blue) into 0 (black).
\<close>

theorem tty_set_fgcolor_drops_background:
  "drop_bit 4 (current_color ((cleared_tty vga_config)\<lparr>current_color := 0x17\<rparr>)) = 1 \<and>
   drop_bit 4 (current_color
     (tty_set_fgcolor ((cleared_tty vga_config)\<lparr>current_color := 0x17\<rparr>) 0x02)) = 0"
  by (simp add: tty_set_fgcolor_eq)

text \<open>
  C8: \<^verbatim>\<open>tty_write\<close> returns at once for a null buffer, a zero count or a null
  console (lemma \<open>tty_write_guards\<close>), and is claimed never to fail on any
  other input. On a console that satisfies the invariant, with the cursor on
  the last row of a viewport that ends one row above the end of the history,
  writing a newline runs into the eviction block of \<^verbatim>\<open>tty_fix_pos\<close>, whose
  \<^verbatim>\<open>memmove\<close> reads beyond the history.
\<close>

theorem tty_write_faults_at_bottom:
  "tty_invariant vga_config ((cleared_tty vga_config)\<lparr>cursor_y := 24, screen_y := 174\<rparr>) \<and>
   tty_write vga_config ansi_handle (Some [0x0A]) 1
     (Some ((cleared_tty vga_config)\<lparr>cursor_y := 24, screen_y := 174\<rparr>), cleared_hw vga_config) =
   Some (Inl OutOfBounds)"
proof -
  let ?t = "(cleared_tty vga_config)\<lparr>cursor_y := 24, screen_y := 174\<rparr>"
  have inv: "tty_invariant vga_config ?t"
    by (simp add: tty_invariant_def cleared_tty_def vga_config_def)
  have "tty_newline vga_config ?t = Inl OutOfBounds"
    by (rule tty_newline_reaches_bottom [OF wf_vgapos_vga_config _ inv])
       (simp_all add: wf_tty_def cleared_tty_def vga_config_def)
  then have "tty_putchar vga_config 0x0A False (?t, cleared_hw vga_config) = Inl OutOfBounds"
    by (simp add: tty_putchar_def Let_def)
  then have "tty_write_loop vga_config ansi_handle [0x0A] 1 0 (?t, cleared_hw vga_config) =
        Some (Inl OutOfBounds)"
    by (intro tty_write_loop_fault) (simp_all add: vga_config_def)
  with inv show ?thesis by (simp add: tty_write_def)
qed

text \<open>
  C9: \<^verbatim>\<open>tty_clear\<close> sets \<open>cursor_x\<close>, \<open>cursor_y\<close> and \<open>screen_y\<close> to 0 and every
  cell of the history to the empty cell; \<open>current_color\<close>, \<open>prompted_chars\<close>
  and \<open>freeze\<close> are as before. (It also draws the blank viewport, frozen or
  not.)
\<close>

theorem tty_clear_resets:
  assumes "wf_config cfg" and "wf_tty cfg t"
  shows "tty_clear cfg (t, d) =
     Inr (t\<lparr>cursor_x := 0, cursor_y := 0, screen_y := 0,
             history := replicate (length (history t)) (EMPTY_CHAR cfg)\<rparr>,
          d\<lparr>vga_buffer := replicate (nat (VGA_WIDTH cfg * VGA_HEIGHT cfg)) (EMPTY_CHAR cfg)
                 @ drop (nat (VGA_WIDTH cfg * VGA_HEIGHT cfg)) (vga_buffer d),
            vga_cursor := (0, 0)\<rparr>)"
proof -
  let ?t1 = "t\<lparr>cursor_x := 0, cursor_y := 0, screen_y := 0,
               history := replicate (length (history t)) (EMPTY_CHAR cfg)\<rparr>"
  have c: "tty_clear_portion cfg (history t) 0 (length (history t)) =
        Inr (replicate (length (history t)) (EMPTY_CHAR cfg))"
    by (simp add: tty_clear_portion_def fill_cells_eq)
  have w: "wf_tty cfg ?t1" using assms(2) by (simp add: wf_tty_def)
  have l: "nat (VGA_WIDTH cfg * VGA_HEIGHT cfg) \<le> length (history t)"
    using assms(2) wf_config_viewport [OF assms(1)] by (simp add: wf_tty_def nat_le_iff)
  have "tty_clear cfg (t, d) = update_tty cfg (?t1, d)"
    by (simp add: tty_clear_def Let_def sizeof_history_def c)
  also have "\<dots> = Inr (?t1, d\<lparr>vga_buffer := take (nat (VGA_WIDTH cfg * VGA_HEIGHT cfg)) (history ?t1)
                     @ drop (nat (VGA_WIDTH cfg * VGA_HEIGHT cfg)) (vga_buffer d),
              vga_cursor := (cursor_x ?t1, cursor_y ?t1)\<rparr>)"
    by (rule update_tty_top [OF assms(1) w]) simp
  finally show ?thesis using l by (simp add: min_def)
qed

theorem tty_clear_resets_witness:
  "wf_config vga_config \<and>
   wf_tty vga_config ((cleared_tty vga_config)\<lparr>cursor_x := 7, cursor_y := 3, screen_y := 40,
      current_color := 0x1E, prompted_chars := 4, freeze := True\<rparr>) \<and>
   tty_clear vga_config ((cleared_tty vga_config)\<lparr>cursor_x := 7, cursor_y := 3, screen_y := 40,
      current_color := 0x1E, prompted_chars := 4, freeze := True\<rparr>, cleared_hw vga_config) =
     Inr ((cleared_tty vga_config)\<lparr>current_color := 0x1E, prompted_chars := 4, freeze := True\<rparr>,
          cleared_hw vga_config)"
proof -
  let ?t = "(cleared_tty vga_config)\<lparr>cursor_x := 7, cursor_y := 3, screen_y := 40,
      current_color := 0x1E, prompted_chars := 4, freeze := True\<rparr>"
  have w: "wf_tty vga_config ?t"
    by (simp add: wf_tty_def cleared_tty_def vga_config_def)
  show ?thesis
    using tty_clear_resets [OF wf_vga_config w, of "cleared_hw vga_config"] wf_vga_config w
    by (simp add: cleared_tty_def cleared_hw_def vga_config_def)
qed

text \<open>
  C10: \<^verbatim>\<open>tty_ctrl_hook\<close> is a no-op for every key code: the console and the
  display are as before.
\<close>

theorem tty_ctrl_hook_noop: "tty_ctrl_hook code s = s"
  by (simp add: tty_ctrl_hook_def)

end
